theory Spec2Isabelle
  imports Complex_Main "HOL-Library.AList" "HOL-Library.Sublist"
begin

section \<open>Python values that the email assistant manipulates\<close>

text \<open>
  The tools of the assistant (\<^verbatim>\<open>generate_email_content\<close>, \<^verbatim>\<open>generate_email\<close>,
  \<^verbatim>\<open>send_email_smtp\<close>) work on whatever \<^verbatim>\<open>json.loads\<close> returns: a dynamically typed
  Python value. The draft is a \<^verbatim>\<open>dict\<close>, modelled as an association list in insertion
  order; a field can hold any JSON value, so every operation of the source that can
  raise on a value of the wrong type has its raising branch in the model.
  Non-finite floats, which behave like any non-zero float in every operation the source
  applies, are not represented.
\<close>

datatype json =
    JNull
  | JBool bool
  | JInt int
  | JFloat rat
  | JStr string
  | JList "json list"
  | JObj "(string \<times> json) list"

text \<open>
  Exceptions are values. Every constructor is a subclass of Python's \<^verbatim>\<open>Exception\<close>, which is
  what the handlers of the source catch; the string is the text of \<^verbatim>\<open>str(e)\<close>.
  Asynchronous interrupts (\<^verbatim>\<open>KeyboardInterrupt\<close>), which are not raised by any step of
  the program itself, are outside the model.
\<close>

datatype py_exc =
    JSONDecodeError string
  | SMTPAuthenticationError string
  | SMTPRecipientsRefused string
  | SMTPServerDisconnected string
  | TypeError string
  | AttributeError string
  | KeyError string
  | UnboundLocalError string
  | RecursionError string
  | OtherException string

fun str_exc :: "py_exc \<Rightarrow> string" where
  "str_exc (JSONDecodeError m) = m"
| "str_exc (SMTPAuthenticationError m) = m"
| "str_exc (SMTPRecipientsRefused m) = m"
| "str_exc (SMTPServerDisconnected m) = m"
| "str_exc (TypeError m) = m"
| "str_exc (AttributeError m) = m"
| "str_exc (KeyError m) = m"
| "str_exc (UnboundLocalError m) = m"
| "str_exc (RecursionError m) = m"
| "str_exc (OtherException m) = m"

text \<open>Truth value of a Python object, as \<^verbatim>\<open>not x\<close> and \<^verbatim>\<open>if x:\<close> test it.\<close>

fun truthy :: "json \<Rightarrow> bool" where
  "truthy JNull = False"
| "truthy (JBool b) = b"
| "truthy (JInt i) = (i \<noteq> 0)"
| "truthy (JFloat r) = (r \<noteq> 0)"
| "truthy (JStr s) = (s \<noteq> [])"
| "truthy (JList xs) = (xs \<noteq> [])"
| "truthy (JObj d) = (d \<noteq> [])"

text \<open>\<^verbatim>\<open>d.get(k)\<close>: a method of dicts only; absent keys give \<^verbatim>\<open>None\<close>.\<close>

fun py_get :: "json \<Rightarrow> string \<Rightarrow> py_exc + json" where
  "py_get (JObj d) k = (case map_of d k of None \<Rightarrow> Inr JNull | Some v \<Rightarrow> Inr v)"
| "py_get _ k = Inl (AttributeError ''object has no attribute get'')"

text \<open>\<^verbatim>\<open>d.get(k, default)\<close>.\<close>

fun py_get_default :: "json \<Rightarrow> string \<Rightarrow> json \<Rightarrow> py_exc + json" where
  "py_get_default (JObj d) k dflt = (case map_of d k of None \<Rightarrow> Inr dflt | Some v \<Rightarrow> Inr v)"
| "py_get_default _ k dflt = Inl (AttributeError ''object has no attribute get'')"

text \<open>\<^verbatim>\<open>x[k]\<close> with a string key.\<close>

fun py_getitem :: "json \<Rightarrow> string \<Rightarrow> py_exc + json" where
  "py_getitem (JObj d) k = (case map_of d k of None \<Rightarrow> Inl (KeyError k) | Some v \<Rightarrow> Inr v)"
| "py_getitem (JList xs) k = Inl (TypeError ''list indices must be integers or slices, not str'')"
| "py_getitem (JStr s) k = Inl (TypeError ''string indices must be integers'')"
| "py_getitem _ k = Inl (TypeError ''object is not subscriptable'')"

text \<open>\<^verbatim>\<open>x[k] = v\<close> with a string key: a new key goes to the end of the dict.\<close>

fun py_setitem :: "json \<Rightarrow> string \<Rightarrow> json \<Rightarrow> py_exc + json" where
  "py_setitem (JObj d) k v = Inr (JObj (AList.update k v d))"
| "py_setitem (JList xs) k v = Inl (TypeError ''list indices must be integers or slices, not str'')"
| "py_setitem _ k v = Inl (TypeError ''object does not support item assignment'')"

text \<open>\<^verbatim>\<open>k in x\<close> for a string \<open>k\<close>: key of a dict, element of a list, substring of a string.\<close>

fun py_contains :: "json \<Rightarrow> string \<Rightarrow> py_exc + bool" where
  "py_contains (JObj d) k = Inr (k \<in> set (map fst d))"
| "py_contains (JList xs) k = Inr (JStr k \<in> set xs)"
| "py_contains (JStr s) k = Inr (sublist k s)"
| "py_contains _ k = Inl (TypeError ''argument is not iterable'')"

text \<open>\<^verbatim>\<open>len(x)\<close>.\<close>

fun py_len :: "json \<Rightarrow> py_exc + nat" where
  "py_len (JStr s) = Inr (length s)"
| "py_len (JList xs) = Inr (length xs)"
| "py_len (JObj d) = Inr (length d)"
| "py_len _ = Inl (TypeError ''object has no len()'')"

text \<open>
  Iterating a value, as \<^verbatim>\<open>str.join\<close> and \<^verbatim>\<open>list.extend\<close> do: the elements of a list, the
  one-character strings of a string, the keys of a dict.
\<close>

fun py_iter :: "json \<Rightarrow> py_exc + json list" where
  "py_iter (JList xs) = Inr xs"
| "py_iter (JStr s) = Inr (map (\<lambda>c. JStr [c]) s)"
| "py_iter (JObj d) = Inr (map (\<lambda>kv. JStr (fst kv)) d)"
| "py_iter _ = Inl (TypeError ''object is not iterable'')"

fun as_strs :: "json list \<Rightarrow> string list option" where
  "as_strs [] = Some []"
| "as_strs (JStr s # xs) = (case as_strs xs of None \<Rightarrow> None | Some ss \<Rightarrow> Some (s # ss))"
| "as_strs (_ # xs) = None"

fun intercalate :: "string \<Rightarrow> string list \<Rightarrow> string" where
  "intercalate sep [] = []"
| "intercalate sep [s] = s"
| "intercalate sep (s # t # ss) = s @ sep @ intercalate sep (t # ss)"

text \<open>\<^verbatim>\<open>sep.join(x)\<close>: every element of the iterable must be a string.\<close>

definition py_join :: "string \<Rightarrow> json \<Rightarrow> py_exc + string" where
  "py_join sep x =
     (case py_iter x of
        Inl e \<Rightarrow> Inl (TypeError ''can only join an iterable'')
      | Inr xs \<Rightarrow>
          (case as_strs xs of
             None \<Rightarrow> Inl (TypeError ''sequence item: expected str instance'')
           | Some ss \<Rightarrow> Inr (intercalate sep ss)))"

text \<open>\<^verbatim>\<open>x.copy()\<close>: lists and dicts have it, strings and the other values do not.\<close>

fun py_copy :: "json \<Rightarrow> py_exc + json" where
  "py_copy (JList xs) = Inr (JList xs)"
| "py_copy (JObj d) = Inr (JObj d)"
| "py_copy _ = Inl (AttributeError ''object has no attribute copy'')"

text \<open>\<^verbatim>\<open>x.extend(y)\<close>: a method of lists only; returns the extended list.\<close>

fun py_extend :: "json \<Rightarrow> json \<Rightarrow> py_exc + json" where
  "py_extend (JList xs) y = (case py_iter y of Inl e \<Rightarrow> Inl e | Inr ys \<Rightarrow> Inr (JList (xs @ ys)))"
| "py_extend _ y = Inl (AttributeError ''object has no attribute extend'')"

text \<open>Sequencing of steps that may raise: the first exception ends the block.\<close>

fun bind_exc :: "'e + 'a \<Rightarrow> ('a \<Rightarrow> 'e + 'b) \<Rightarrow> 'e + 'b" where
  "bind_exc (Inl e) f = Inl e"
| "bind_exc (Inr x) f = f x"

section \<open>The send tool: \<^verbatim>\<open>send_email_smtp\<close>\<close>

text \<open>
  \<^verbatim>\<open>send_email_smtp\<close> is the same text in \<^verbatim>\<open>email_agent_langchain.py\<close> and in
  \<^verbatim>\<open>email_langgraph.py\<close>; one model serves both. The module constants are those of the
  source.
\<close>

definition SENDER_EMAIL :: string where "SENDER_EMAIL = []"
definition SENDER_PASSWORD :: string where "SENDER_PASSWORD = []"
definition SMTP_SERVER :: string where "SMTP_SERVER = ''smtp.gmail.com''"
definition SMTP_PORT :: nat where "SMTP_PORT = 587"

text \<open>
  The MIME message under construction: the headers in the order in which
  \<^verbatim>\<open>message[name] = value\<close> stored them (the value is stored as it is, whatever its type)
  and the attached text parts.
\<close>

record mime_message =
  headers :: "(string \<times> json) list"
  parts :: "string list"

text \<open>
  The calls made on the mail transport (\<^verbatim>\<open>smtplib\<close>), with their arguments. The recipients
  of \<^verbatim>\<open>sendmail\<close> are whatever Python value the caller passes.
\<close>

datatype smtp_call =
    SMTP_connect string nat
  | SMTP_starttls
  | SMTP_login json json
  | SMTP_sendmail json json string
  | SMTP_quit

text \<open>
  The libraries the tool calls are parameters: \<^verbatim>\<open>json.loads\<close> (\<open>Inl\<close> is the exception it
  raises, a \<^verbatim>\<open>JSONDecodeError\<close> or any other), \<^verbatim>\<open>message.as_string()\<close>, and the transport, which answers each
  call with success (\<open>None\<close>) or an exception.
\<close>

record smtp_env =
  loads :: "string \<Rightarrow> py_exc + json"
  as_string :: "mime_message \<Rightarrow> py_exc + string"
  transport :: "smtp_call \<Rightarrow> py_exc option"

text \<open>Calls on the transport in sequence, up to and including the first one that raises.\<close>

fun run_calls :: "(smtp_call \<Rightarrow> py_exc option) \<Rightarrow> smtp_call list \<Rightarrow> py_exc option \<times> smtp_call list" where
  "run_calls T [] = (None, [])"
| "run_calls T (c # cs) =
     (case T c of
        Some e \<Rightarrow> (Some e, [c])
      | None \<Rightarrow> (case run_calls T cs of (r, tr) \<Rightarrow> (r, c # tr)))"

text \<open>
  Lines "Validate required fields" of \<^verbatim>\<open>send_email_smtp\<close>: \<open>Some msg\<close> is the early
  \<^verbatim>\<open>return msg\<close>, \<open>None\<close> lets the function go on.
\<close>

definition validate_required :: "json \<Rightarrow> py_exc + string option" where
  "validate_required email_data =
     bind_exc (py_get email_data ''subject'') (\<lambda>subject.
       if \<not> truthy subject then Inr (Some ''Error: Email subject is required'')
       else bind_exc (py_get email_data ''body'') (\<lambda>body.
         if \<not> truthy body then Inr (Some ''Error: Email body is required'')
         else bind_exc (py_get email_data ''to'') (\<lambda>to_get.
           if \<not> truthy to_get then Inr (Some ''Error: At least one recipient is required'')
           else bind_exc (py_getitem email_data ''to'') (\<lambda>to_item.
             bind_exc (py_len to_item) (\<lambda>n.
               if n = 0 then Inr (Some ''Error: At least one recipient is required'')
               else Inr None)))))"

text \<open>\<^verbatim>\<open>MIMEText(body, "plain")\<close> encodes its text: only a string has \<^verbatim>\<open>encode\<close>.\<close>

fun mime_text :: "json \<Rightarrow> py_exc + string" where
  "mime_text (JStr s) = Inr s"
| "mime_text _ = Inl (AttributeError ''object has no attribute encode'')"

text \<open>Lines "Set priority if specified".\<close>

definition priority_headers :: "json \<Rightarrow> (string \<times> json) list" where
  "priority_headers priority =
     (if priority = JStr ''high'' then
        [(''X-Priority'', JStr ''1''), (''X-MSMail-Priority'', JStr ''High'')]
      else if priority = JStr ''low'' then
        [(''X-Priority'', JStr ''5''), (''X-MSMail-Priority'', JStr ''Low'')]
      else [])"

text \<open>Lines "Add CC and BCC if present", for one of the two fields.\<close>

definition optional_header :: "json \<Rightarrow> string \<Rightarrow> string \<Rightarrow> py_exc + (string \<times> json) list" where
  "optional_header email_data key name =
     bind_exc (py_get email_data key) (\<lambda>v.
       if truthy v then
         bind_exc (py_getitem email_data key) (\<lambda>item.
           bind_exc (py_join '', '' item) (\<lambda>joined. Inr [(name, JStr joined)]))
       else Inr [])"

text \<open>Lines "Create message" to "Add body to the message".\<close>

definition create_message :: "json \<Rightarrow> py_exc + mime_message" where
  "create_message email_data =
     bind_exc (py_getitem email_data ''to'') (\<lambda>to_item.
     bind_exc (py_join '', '' to_item) (\<lambda>to_joined.
     bind_exc (py_getitem email_data ''subject'') (\<lambda>subject.
     bind_exc (optional_header email_data ''cc'' ''Cc'') (\<lambda>cc_header.
     bind_exc (optional_header email_data ''bcc'' ''Bcc'') (\<lambda>bcc_header.
     bind_exc (py_get_default email_data ''priority'' (JStr ''normal'')) (\<lambda>priority.
     bind_exc (py_getitem email_data ''body'') (\<lambda>body.
     bind_exc (mime_text body) (\<lambda>part.
       Inr \<lparr> headers =
               [(''From'', JStr SENDER_EMAIL), (''To'', JStr to_joined), (''Subject'', subject)]
               @ cc_header @ bcc_header @ priority_headers priority,
             parts = [part] \<rparr>))))))))"

text \<open>Lines "Prepare recipient list (to + cc + bcc)", for one of the two optional fields.\<close>

definition extend_if_present :: "json \<Rightarrow> string \<Rightarrow> json \<Rightarrow> py_exc + json" where
  "extend_if_present email_data key all_recipients =
     bind_exc (py_get email_data key) (\<lambda>v.
       if truthy v then
         bind_exc (py_getitem email_data key) (\<lambda>item. py_extend all_recipients item)
       else Inr all_recipients)"

definition prepare_recipients :: "json \<Rightarrow> py_exc + json" where
  "prepare_recipients email_data =
     bind_exc (py_getitem email_data ''to'') (\<lambda>to_item.
     bind_exc (py_copy to_item) (\<lambda>all_recipients.
     bind_exc (extend_if_present email_data ''cc'' all_recipients) (\<lambda>all_recipients.
       extend_if_present email_data ''bcc'' all_recipients)))"

text \<open>
  Lines "Connect to SMTP server and send" and the final \<^verbatim>\<open>return\<close>: the result of the
  block and the calls made on the transport.
\<close>

definition smtp_deliver :: "smtp_env \<Rightarrow> mime_message \<Rightarrow> json \<Rightarrow> (py_exc + string) \<times> smtp_call list" where
  "smtp_deliver env message all_recipients =
     (case run_calls (transport env)
             [SMTP_connect SMTP_SERVER SMTP_PORT, SMTP_starttls,
              SMTP_login (JStr SENDER_EMAIL) (JStr SENDER_PASSWORD)] of
        (Some e, tr) \<Rightarrow> (Inl e, tr)
      | (None, tr) \<Rightarrow>
          (case as_string env message of
             Inl e \<Rightarrow> (Inl e, tr)
           | Inr text \<Rightarrow>
               (case run_calls (transport env)
                       [SMTP_sendmail (JStr SENDER_EMAIL) all_recipients text, SMTP_quit] of
                  (Some e, tr2) \<Rightarrow> (Inl e, tr @ tr2)
                | (None, tr2) \<Rightarrow>
                    (bind_exc (py_join '', '' all_recipients) (\<lambda>joined.
                       Inr (''Email sent successfully to: '' @ joined)),
                     tr @ tr2))))"

text \<open>The body of the \<^verbatim>\<open>try\<close> block.\<close>

definition send_email_smtp_try :: "smtp_env \<Rightarrow> string \<Rightarrow> (py_exc + string) \<times> smtp_call list" where
  "send_email_smtp_try env email_data_json =
     (case loads env email_data_json of
        Inl e \<Rightarrow> (Inl e, [])
      | Inr email_data \<Rightarrow>
          (case validate_required email_data of
             Inl e \<Rightarrow> (Inl e, [])
           | Inr (Some msg) \<Rightarrow> (Inr msg, [])
           | Inr None \<Rightarrow>
               (case create_message email_data of
                  Inl e \<Rightarrow> (Inl e, [])
                | Inr message \<Rightarrow>
                    (case prepare_recipients email_data of
                       Inl e \<Rightarrow> (Inl e, [])
                     | Inr all_recipients \<Rightarrow> smtp_deliver env message all_recipients))))"

text \<open>The \<^verbatim>\<open>except\<close> clauses, in the order of the source.\<close>

fun send_email_smtp_except :: "py_exc \<Rightarrow> string" where
  "send_email_smtp_except (JSONDecodeError m) = ''Error: Invalid email data format - '' @ m"
| "send_email_smtp_except (SMTPAuthenticationError m) =
     ''Error: SMTP authentication failed. Please check your email credentials.''"
| "send_email_smtp_except (SMTPRecipientsRefused m) =
     ''Error: Invalid recipient email addresses - '' @ m"
| "send_email_smtp_except (SMTPServerDisconnected m) =
     ''Error: SMTP server connection lost. Please try again.''"
| "send_email_smtp_except e = ''Error: Failed to send email - '' @ str_exc e"

text \<open>The tool: the message it returns and the calls it made on the transport.\<close>

definition send_email_smtp :: "smtp_env \<Rightarrow> string \<Rightarrow> string \<times> smtp_call list" where
  "send_email_smtp env email_data_json =
     (case send_email_smtp_try env email_data_json of
        (Inr msg, tr) \<Rightarrow> (msg, tr)
      | (Inl e, tr) \<Rightarrow> (send_email_smtp_except e, tr))"

text \<open>
  The value of a field as \<^verbatim>\<open>d.get(k)\<close> reads it, and the recipients of the
  \<^verbatim>\<open>sendmail\<close> calls of a trace.
\<close>

definition field :: "(string \<times> json) list \<Rightarrow> string \<Rightarrow> json" where
  "field d k = (case map_of d k of None \<Rightarrow> JNull | Some v \<Rightarrow> v)"

fun sendmail_recipients :: "smtp_call list \<Rightarrow> json list" where
  "sendmail_recipients [] = []"
| "sendmail_recipients (SMTP_sendmail s r t # cs) = r # sendmail_recipients cs"
| "sendmail_recipients (_ # cs) = sendmail_recipients cs"

text \<open>The headers of a message that carry a priority marker, and its other headers.\<close>

definition priority_markers :: "mime_message \<Rightarrow> (string \<times> json) list" where
  "priority_markers m =
     filter (\<lambda>h. fst h = ''X-Priority'' \<or> fst h = ''X-MSMail-Priority'') (headers m)"

definition other_headers :: "mime_message \<Rightarrow> (string \<times> json) list" where
  "other_headers m =
     filter (\<lambda>h. fst h \<noteq> ''X-Priority'' \<and> fst h \<noteq> ''X-MSMail-Priority'') (headers m)"

section \<open>The mail helper of \<^verbatim>\<open>smtp.py\<close>: \<^verbatim>\<open>send_email\<close>\<close>

text \<open>
  \<^verbatim>\<open>send_email(subject, body, sender_email, sender_password, recipient_email)\<close> has no type
  annotations: its arguments are arbitrary Python values. The whole body is one
  \<^verbatim>\<open>try\<close> block; its result is the value returned or the exception raised, with the
  calls made on the transport.
\<close>

definition send_email_try ::
  "smtp_env \<Rightarrow> json \<Rightarrow> json \<Rightarrow> json \<Rightarrow> json \<Rightarrow> json \<Rightarrow> (py_exc + bool) \<times> smtp_call list" where
  "send_email_try env subject body sender_email sender_password recipient_email =
     (case mime_text body of
        Inl e \<Rightarrow> (Inl e, [])
      | Inr part \<Rightarrow>
          (case run_calls (transport env)
                  [SMTP_connect ''smtp.gmail.com'' 587, SMTP_starttls,
                   SMTP_login sender_email sender_password] of
             (Some e, tr) \<Rightarrow> (Inl e, tr)
           | (None, tr) \<Rightarrow>
               (case as_string env
                       \<lparr> headers = [(''From'', sender_email), (''To'', recipient_email),
                                     (''Subject'', subject)],
                         parts = [part] \<rparr> of
                  Inl e \<Rightarrow> (Inl e, tr)
                | Inr text \<Rightarrow>
                    (case run_calls (transport env)
                            [SMTP_sendmail sender_email recipient_email text, SMTP_quit] of
                       (Some e, tr2) \<Rightarrow> (Inl e, tr @ tr2)
                     | (None, tr2) \<Rightarrow> (Inr True, tr @ tr2)))))"

text \<open>\<^verbatim>\<open>except Exception as e: ... return False\<close>.\<close>

definition send_email ::
  "smtp_env \<Rightarrow> json \<Rightarrow> json \<Rightarrow> json \<Rightarrow> json \<Rightarrow> json \<Rightarrow> (py_exc + bool) \<times> smtp_call list" where
  "send_email env subject body sender_email sender_password recipient_email =
     (case send_email_try env subject body sender_email sender_password recipient_email of
        (Inr b, tr) \<Rightarrow> (Inr b, tr)
      | (Inl e, tr) \<Rightarrow> (Inr False, tr))"

section \<open>Synthesis: \<^verbatim>\<open>generate_email_content\<close> and \<^verbatim>\<open>generate_email\<close>\<close>

text \<open>
  The methods of Python's \<^verbatim>\<open>str\<close> that the source calls, \<^verbatim>\<open>lower()\<close>, \<^verbatim>\<open>strip()\<close> and
  \<^verbatim>\<open>split()\<close>, work on Unicode text; they are parameters, so that every property below
  holds for what the library does on any text.
\<close>

record str_lib =
  str_lower :: "string \<Rightarrow> string"
  str_strip :: "string \<Rightarrow> string"
  str_split :: "string \<Rightarrow> string list"

text \<open>
  What synthesis reads from outside: the environment variable \<^verbatim>\<open>OPENAI_API_KEY\<close>, the
  constructor of the client (which may raise), the completion call (it raises, or gives the
  \<^verbatim>\<open>content\<close> of the first choice, which may be \<^verbatim>\<open>None\<close>) with the model name and the
  request embedded in the prompt, \<^verbatim>\<open>json.loads\<close> (\<open>Inl\<close> is the exception it raises, a
  \<^verbatim>\<open>JSONDecodeError\<close> or any other), and the methods of \<^verbatim>\<open>str\<close>.
\<close>

record gen_env =
  api_key :: "string option"
  new_client :: "string option \<Rightarrow> py_exc option"
  chat :: "string \<Rightarrow> string \<Rightarrow> py_exc + string option"
  gen_loads :: "string \<Rightarrow> py_exc + json"
  gen_str :: str_lib

datatype gen_call =
    OpenAI_client "string option"
  | Chat_completion string string

text \<open>\<^verbatim>\<open>content.strip()\<close> on the completion's content: \<^verbatim>\<open>None\<close> has no \<^verbatim>\<open>strip\<close>.\<close>

fun strip_content :: "str_lib \<Rightarrow> string option \<Rightarrow> py_exc + string" where
  "strip_content lib None = Inl (AttributeError ''NoneType object has no attribute strip'')"
| "strip_content lib (Some c) = Inr (str_strip lib c)"

definition required_fields :: "string list" where
  "required_fields = [''subject'', ''body'', ''to'', ''cc'', ''bcc'', ''priority'']"

text \<open>
  The loop \<^verbatim>\<open>for field in required_fields: if field not in email_data: ...\<close>, with the
  default of each variant as its parameter.
\<close>

definition repair_field :: "(string \<Rightarrow> json) \<Rightarrow> json \<Rightarrow> string \<Rightarrow> py_exc + json" where
  "repair_field dflt email_data fld =
     bind_exc (py_contains email_data fld) (\<lambda>present.
       if \<not> present then py_setitem email_data fld (dflt fld) else Inr email_data)"

fun repair_fields :: "(string \<Rightarrow> json) \<Rightarrow> string list \<Rightarrow> json \<Rightarrow> py_exc + json" where
  "repair_fields dflt [] email_data = Inr email_data"
| "repair_fields dflt (fld # flds) email_data =
     bind_exc (repair_field dflt email_data fld) (repair_fields dflt flds)"

text \<open>The defaults of \<^verbatim>\<open>generate_email_content\<close> (both agent files).\<close>

definition default_content :: "string \<Rightarrow> json" where
  "default_content fld =
     (if fld \<in> set [''to'', ''cc'', ''bcc''] then JList []
      else if fld = ''priority'' then JStr ''normal''
      else JStr [])"

text \<open>The defaults of \<^verbatim>\<open>generate_email\<close> (\<^verbatim>\<open>email_generation.py\<close>).\<close>

definition default_generation :: "string \<Rightarrow> json" where
  "default_generation fld = (if fld \<in> set [''to'', ''cc'', ''bcc''] then JList [] else JStr [])"

text \<open>Lines "Ensure 'to' field has at least one recipient".\<close>

definition ensure_recipient :: "json \<Rightarrow> py_exc + json" where
  "ensure_recipient email_data =
     bind_exc (py_getitem email_data ''to'') (\<lambda>to_item.
       if \<not> truthy to_item then py_setitem email_data ''to'' (JList [JStr ''recipient@example.com''])
       else Inr email_data)"

text \<open>
  The \<^verbatim>\<open>try\<close> block of \<^verbatim>\<open>generate_email_content\<close>. A failure carries the value of the local
  \<^verbatim>\<open>email_content\<close> if it was assigned, which the handler reads. The result is the value
  given to \<^verbatim>\<open>json.dumps\<close>.
\<close>

definition generate_email_content_try ::
  "gen_env \<Rightarrow> string \<Rightarrow> ((py_exc \<times> string option) + json) \<times> gen_call list" where
  "generate_email_content_try env query =
     (if api_key env = None \<or> api_key env = Some [] then
        (Inr (JObj [(''error'', JStr ''OpenAI API key not found in environment variables'')]), [])
      else
        (case new_client env (api_key env) of
           Some e \<Rightarrow> (Inl (e, None), [OpenAI_client (api_key env)])
         | None \<Rightarrow>
             (case bind_exc (chat env ''gpt-3.5-turbo'' query) (strip_content (gen_str env)) of
                Inl e \<Rightarrow>
                  (Inl (e, None),
                   [OpenAI_client (api_key env), Chat_completion ''gpt-3.5-turbo'' query])
              | Inr email_content \<Rightarrow>
                  (case gen_loads env email_content of
                     Inl e \<Rightarrow>
                       (Inl (e, Some email_content),
                        [OpenAI_client (api_key env), Chat_completion ''gpt-3.5-turbo'' query])
                   | Inr email_data \<Rightarrow>
                       (case bind_exc (repair_fields default_content required_fields email_data)
                               ensure_recipient of
                          Inl e \<Rightarrow>
                            (Inl (e, Some email_content),
                             [OpenAI_client (api_key env), Chat_completion ''gpt-3.5-turbo'' query])
                        | Inr repaired \<Rightarrow>
                            (Inr repaired,
                             [OpenAI_client (api_key env),
                              Chat_completion ''gpt-3.5-turbo'' query]))))))"

text \<open>The two \<^verbatim>\<open>except\<close> clauses of \<^verbatim>\<open>generate_email_content\<close>.\<close>

fun generate_email_content_except :: "py_exc \<times> string option \<Rightarrow> json" where
  "generate_email_content_except (JSONDecodeError m, email_content) =
     JObj [(''error'', JStr (''Failed to parse JSON response: '' @ m)),
           (''raw_response'',
            JStr (case email_content of Some c \<Rightarrow> c | None \<Rightarrow> ''No response''))]"
| "generate_email_content_except (e, email_content) =
     JObj [(''error'', JStr (''Email generation failed: '' @ str_exc e))]"

definition generate_email_content :: "gen_env \<Rightarrow> string \<Rightarrow> json \<times> gen_call list" where
  "generate_email_content env query =
     (case generate_email_content_try env query of
        (Inr v, calls) \<Rightarrow> (v, calls)
      | (Inl f, calls) \<Rightarrow> (generate_email_content_except f, calls))"

text \<open>
  \<^verbatim>\<open>generate_email(query, model)\<close> of \<^verbatim>\<open>email_generation.py\<close>. The client is built before
  the \<^verbatim>\<open>try\<close>, so its exception leaves the function; the first handler reads
  \<^verbatim>\<open>email_content\<close>, which is unbound when the completion call itself raised the
  \<^verbatim>\<open>JSONDecodeError\<close>, and an exception raised in a handler leaves the function too.
\<close>

definition generate_email_try :: "gen_env \<Rightarrow> string \<Rightarrow> string \<Rightarrow> (py_exc \<times> string option) + json" where
  "generate_email_try env query model =
     (case bind_exc (chat env model query) (strip_content (gen_str env)) of
        Inl e \<Rightarrow> Inl (e, None)
      | Inr email_content \<Rightarrow>
          (case gen_loads env email_content of
             Inl e \<Rightarrow> Inl (e, Some email_content)
           | Inr email_data \<Rightarrow>
               (case repair_fields default_generation required_fields email_data of
                  Inl e \<Rightarrow> Inl (e, Some email_content)
                | Inr repaired \<Rightarrow> Inr repaired)))"

fun generate_email_except :: "py_exc \<times> string option \<Rightarrow> py_exc + json" where
  "generate_email_except (JSONDecodeError m, Some email_content) =
     Inr (JObj [(''error'', JStr (''Failed to parse JSON response: '' @ m)),
                (''raw_response'', JStr email_content)])"
| "generate_email_except (JSONDecodeError m, None) =
     Inl (UnboundLocalError ''local variable email_content referenced before assignment'')"
| "generate_email_except (e, email_content) =
     Inr (JObj [(''error'', JStr (''API call failed: '' @ str_exc e))])"

definition generate_email :: "gen_env \<Rightarrow> string \<Rightarrow> string \<Rightarrow> (py_exc + json) \<times> gen_call list" where
  "generate_email env query model =
     (case new_client env (api_key env) of
        Some e \<Rightarrow> (Inl e, [OpenAI_client (api_key env)])
      | None \<Rightarrow>
          (case generate_email_try env query model of
             Inr v \<Rightarrow> (Inr v, [OpenAI_client (api_key env), Chat_completion model query])
           | Inl f \<Rightarrow>
               (generate_email_except f,
                [OpenAI_client (api_key env), Chat_completion model query])))"

text \<open>Whether a parsed value is a JSON object, and whether an exception is a \<^verbatim>\<open>JSONDecodeError\<close>.\<close>

fun is_object :: "json \<Rightarrow> bool" where
  "is_object (JObj d) = True"
| "is_object _ = False"

fun is_JSONDecodeError :: "py_exc \<Rightarrow> bool" where
  "is_JSONDecodeError (JSONDecodeError m) = True"
| "is_JSONDecodeError _ = False"

section \<open>The orchestrator of \<^verbatim>\<open>email_langgraph.py\<close>\<close>

text \<open>
  The graph has two nodes: \<^verbatim>\<open>agent\<close> (\<^verbatim>\<open>call_model\<close>) and \<^verbatim>\<open>tools\<close> (a \<^verbatim>\<open>ToolNode\<close> over
  \<^verbatim>\<open>generate_email_content\<close> and \<^verbatim>\<open>send_email_smtp\<close>). A tool call names a tool and gives
  its one string argument.
\<close>

datatype tool_call = ToolCall string string

datatype message =
    HumanMessage string
  | AIMessage string "tool_call list"
  | ToolMessage string string

text \<open>
  The language model is an arbitrary function of the messages it is given: it raises, or
  answers with the content and the tool calls of an \<^verbatim>\<open>AIMessage\<close>. Building the
  \<^verbatim>\<open>ChatOpenAI\<close> object and binding the tools happen inside \<^verbatim>\<open>call_model\<close> at every call and
  are part of this function. The text of the system message does not matter to any
  property below and is a parameter, as are \<^verbatim>\<open>json.dumps\<close> and the methods of \<^verbatim>\<open>str\<close>.
\<close>

record agent_env =
  llm :: "message list \<Rightarrow> py_exc + string \<times> tool_call list"
  system_message :: string
  dumps :: "json \<Rightarrow> string"
  agent_str :: str_lib
  gen :: gen_env
  smtp :: smtp_env

text \<open>What a session does, in order.\<close>

datatype event =
    EvUser string
  | EvAgent string "tool_call list"
  | EvGenerate string json
  | EvSend string string "smtp_call list"
  | EvInvalidTool string
  | EvClarify
  | EvError string
  | EvGoodbye

fun is_AIMessage :: "message \<Rightarrow> bool" where
  "is_AIMessage (AIMessage c calls) = True"
| "is_AIMessage _ = False"

text \<open>\<^verbatim>\<open>call_model\<close>: the messages to add to the state, or the exception of the model call.\<close>

definition call_model :: "agent_env \<Rightarrow> message list \<Rightarrow> py_exc + message list" where
  "call_model env messages =
     (case llm env
             (if messages = [] \<or> \<not> list_ex is_AIMessage messages
              then HumanMessage (system_message env) # messages else messages) of
        Inl e \<Rightarrow> Inl e
      | Inr (content, calls) \<Rightarrow> Inr [AIMessage content calls])"

text \<open>\<^verbatim>\<open>should_continue\<close>: the name of the next node.\<close>

fun should_continue_last :: "message \<Rightarrow> string" where
  "should_continue_last (AIMessage c calls) = (if calls \<noteq> [] then ''tools'' else ''__end__'')"
| "should_continue_last _ = ''__end__''"

definition should_continue :: "message list \<Rightarrow> py_exc + string" where
  "should_continue messages =
     (case rev messages of
        [] \<Rightarrow> Inl (OtherException ''list index out of range'')
      | last_message # _ \<Rightarrow> Inr (should_continue_last last_message))"

text \<open>
  The \<^verbatim>\<open>tools\<close> node runs every tool call of the last message and answers each with a
  \<^verbatim>\<open>ToolMessage\<close>, the answers in the order of the calls; a name that is not one of the
  two tools is answered with an error message and runs nothing. The library may run the
  calls of one message side by side; the events list them in the order of their answers.
\<close>

definition run_tool :: "agent_env \<Rightarrow> tool_call \<Rightarrow> message \<times> event" where
  "run_tool env call =
     (case call of ToolCall name arg \<Rightarrow>
        if name = ''generate_email_content'' then
          (case generate_email_content (gen env) arg of
             (v, calls) \<Rightarrow> (ToolMessage (dumps env v) name, EvGenerate arg v))
        else if name = ''send_email_smtp'' then
          (case send_email_smtp (smtp env) arg of
             (r, tr) \<Rightarrow> (ToolMessage r name, EvSend arg r tr))
        else
          (ToolMessage
             (''Error: '' @ name @
              '' is not a valid tool, try one of [generate_email_content, send_email_smtp].'')
             name,
           EvInvalidTool name))"

fun last_tool_calls :: "message list \<Rightarrow> tool_call list" where
  "last_tool_calls [] = []"
| "last_tool_calls [AIMessage c calls] = calls"
| "last_tool_calls [m] = []"
| "last_tool_calls (m # ms) = last_tool_calls ms"

definition tool_node :: "agent_env \<Rightarrow> message list \<Rightarrow> message list \<times> event list" where
  "tool_node env messages =
     (map (\<lambda>c. fst (run_tool env c)) (last_tool_calls messages),
      map (\<lambda>c. snd (run_tool env c)) (last_tool_calls messages))"

text \<open>
  One run of the compiled graph from the entry point \<^verbatim>\<open>agent\<close>: \<^verbatim>\<open>agent\<close>, then \<^verbatim>\<open>tools\<close> and
  back to \<^verbatim>\<open>agent\<close> as long as \<^verbatim>\<open>should_continue\<close> says so. The number of node executions is
  bounded by the recursion limit of the graph library, whose excess is an exception.
\<close>

datatype outcome = Finished | Raised py_exc

definition graph_recursion_error :: py_exc where
  "graph_recursion_error = OtherException ''Recursion limit reached without hitting a stop condition''"

fun last_agent_event :: "message list \<Rightarrow> event list" where
  "last_agent_event [AIMessage c calls] = [EvAgent c calls]"
| "last_agent_event _ = []"

fun run_workflow :: "agent_env \<Rightarrow> nat \<Rightarrow> message list \<Rightarrow> outcome \<times> event list" where
  "run_workflow env 0 messages = (Raised graph_recursion_error, [])"
| "run_workflow env (Suc n) messages =
     (case call_model env messages of
        Inl e \<Rightarrow> (Raised e, [])
      | Inr response \<Rightarrow>
          (case should_continue (messages @ response) of
             Inl e \<Rightarrow> (Raised e, last_agent_event response)
           | Inr next_node \<Rightarrow>
               if next_node = ''tools'' then
                 (case n of
                    0 \<Rightarrow> (Raised graph_recursion_error, last_agent_event response)
                  | Suc m \<Rightarrow>
                      (case tool_node env (messages @ response) of
                         (tool_messages, tool_events) \<Rightarrow>
                           (case run_workflow env m (messages @ response @ tool_messages) of
                              (out, evs) \<Rightarrow>
                                (out, last_agent_event response @ tool_events @ evs))))
               else (Finished, last_agent_event response)))"

definition recursion_limit :: nat where
  "recursion_limit = 25"

text \<open>
  \<^verbatim>\<open>run_email_agent\<close>: the loop over the lines the user types. Each accepted line starts a
  run of the graph from a fresh state that holds this line alone; an exception of the run
  is printed and the loop goes on. The list ends where the user interrupts the program.
\<close>

fun run_email_agent :: "agent_env \<Rightarrow> string list \<Rightarrow> event list" where
  "run_email_agent env [] = []"
| "run_email_agent env (user_input # rest) =
     (if str_lower (agent_str env) user_input \<in> set [''quit'', ''exit'', ''bye''] then [EvGoodbye]
      else if str_strip (agent_str env) user_input = [] then run_email_agent env rest
      else if length (str_split (agent_str env) (str_strip (agent_str env) user_input)) < 2
        then EvClarify # run_email_agent env rest
      else
        (case run_workflow env recursion_limit [HumanMessage user_input] of
           (Finished, evs) \<Rightarrow> EvUser user_input # evs @ run_email_agent env rest
         | (Raised e, evs) \<Rightarrow>
             EvUser user_input # evs @ EvError (str_exc e) # run_email_agent env rest))"

text \<open>
  The program of \<^verbatim>\<open>email_langgraph.py\<close> when run as a script: one test call of the
  synthesis tool, whose result is printed, then the interactive loop.
\<close>

definition main_langgraph :: "agent_env \<Rightarrow> string list \<Rightarrow> json \<times> event list" where
  "main_langgraph env inputs =
     (fst (generate_email_content (gen env)
             ''Send a thank you email to john@company.com for the great meeting yesterday''),
      run_email_agent env inputs)"

text \<open>The tool calls a session ran, and the tool calls the model asked for, in order.\<close>

fun executed :: "event list \<Rightarrow> tool_call list" where
  "executed [] = []"
| "executed (EvGenerate arg v # evs) = ToolCall ''generate_email_content'' arg # executed evs"
| "executed (EvSend arg r tr # evs) = ToolCall ''send_email_smtp'' arg # executed evs"
| "executed (_ # evs) = executed evs"

definition is_tool :: "tool_call \<Rightarrow> bool" where
  "is_tool call =
     (case call of ToolCall name arg \<Rightarrow>
        name = ''generate_email_content'' \<or> name = ''send_email_smtp'')"

fun requested :: "event list \<Rightarrow> tool_call list" where
  "requested [] = []"
| "requested (EvAgent c calls # evs) = filter is_tool calls @ requested evs"
| "requested (_ # evs) = requested evs"

subsection \<open>The state machine of the specification, as a monitor of a session\<close>

text \<open>
  The specification describes the orchestrator as a machine with the states below, in
  which the sender runs only in \<open>Sending\<close>, entered from \<open>AwaitingConfirmation\<close> by a user
  turn classified affirmative. The source has no such states; the monitor follows the
  words of the specification over the events of a session so that the two can be
  compared. Where the specification leaves a transition open, the monitor takes the
  most permissive reading. \<open>None\<close> means that the sender ran outside \<open>Sending\<close>.
\<close>

datatype phase = Idle | AwaitingDraftGeneration | AwaitingConfirmation | Sending | Done

fun spec_step :: "(string \<Rightarrow> bool) \<Rightarrow> phase \<Rightarrow> event \<Rightarrow> phase option" where
  "spec_step affirmative p (EvUser u) =
     (if p = AwaitingConfirmation \<and> affirmative u then Some Sending
      else Some AwaitingDraftGeneration)"
| "spec_step affirmative p (EvGenerate arg v) = Some AwaitingConfirmation"
| "spec_step affirmative p (EvSend arg r tr) = (if p = Sending then Some Idle else None)"
| "spec_step affirmative p EvGoodbye = Some Done"
| "spec_step affirmative p _ = Some p"

fun spec_run :: "(string \<Rightarrow> bool) \<Rightarrow> phase \<Rightarrow> event list \<Rightarrow> phase option" where
  "spec_run affirmative p [] = Some p"
| "spec_run affirmative p (e # evs) =
     (case spec_step affirmative p e of
        None \<Rightarrow> None
      | Some p' \<Rightarrow> spec_run affirmative p' evs)"

definition confirmation_gate_holds :: "(string \<Rightarrow> bool) \<Rightarrow> event list \<Rightarrow> bool" where
  "confirmation_gate_holds affirmative evs = (spec_run affirmative Idle evs \<noteq> None)"

section \<open>The script of \<^verbatim>\<open>email_agent_langchain.py\<close>\<close>

text \<open>
  \<^verbatim>\<open>run_email_agent\<close> of this file first calls \<^verbatim>\<open>create_email_agent()\<close>, which builds the
  model object \<^verbatim>\<open>ChatOpenAI(..., openai_api_key=os.getenv("OPENAI_API_KEY"))\<close>, the agent
  and the \<^verbatim>\<open>AgentExecutor\<close>; this happens before the loop and outside any \<^verbatim>\<open>try\<close>. The
  constructors and the executor's \<^verbatim>\<open>invoke\<close> belong to the library and are parameters:
  the constructor of the model object is given the credential and may raise, building the
  agent and the executor may raise, and \<^verbatim>\<open>invoke\<close> on a line raises or gives the output.
\<close>

record chain_env =
  chain_gen :: gen_env
  new_chat_model :: "string option \<Rightarrow> py_exc option"
  new_executor :: "py_exc option"
  invoke :: "string \<Rightarrow> py_exc + string"
  chain_str :: str_lib

datatype chain_event = ChainOutput string | ChainError string | ChainGoodbye

text \<open>\<^verbatim>\<open>create_email_agent\<close>: the exception that leaves it, if any.\<close>

definition create_email_agent :: "chain_env \<Rightarrow> py_exc option" where
  "create_email_agent env =
     (case new_chat_model env (api_key (chain_gen env)) of
        Some e \<Rightarrow> Some e
      | None \<Rightarrow> new_executor env)"

text \<open>The \<^verbatim>\<open>while True\<close> loop of \<^verbatim>\<open>run_email_agent\<close>, over the lines the user types.\<close>

fun chain_loop :: "chain_env \<Rightarrow> string list \<Rightarrow> chain_event list" where
  "chain_loop env [] = []"
| "chain_loop env (user_input # rest) =
     (if str_lower (chain_str env) user_input \<in> set [''quit'', ''exit'', ''bye''] then [ChainGoodbye]
      else if str_strip (chain_str env) user_input = [] then chain_loop env rest
      else
        (case invoke env user_input of
           Inr output \<Rightarrow> ChainOutput output # chain_loop env rest
         | Inl e \<Rightarrow> ChainError (str_exc e) # chain_loop env rest))"

text \<open>
  \<^verbatim>\<open>run_email_agent\<close>: \<open>Inl e\<close> is the exception that ends the process before the loop
  begins, \<open>Inr evs\<close> what the loop did.
\<close>

definition run_email_agent_langchain :: "chain_env \<Rightarrow> string list \<Rightarrow> py_exc + chain_event list" where
  "run_email_agent_langchain env inputs =
     (case create_email_agent env of
        Some e \<Rightarrow> Inl e
      | None \<Rightarrow> Inr (chain_loop env inputs))"

text \<open>
  The program when run as a script: one test call of the synthesis tool, whose result is
  printed, then \<^verbatim>\<open>run_email_agent()\<close>.
\<close>

definition main_langchain :: "chain_env \<Rightarrow> string list \<Rightarrow> json \<times> (py_exc + chain_event list)" where
  "main_langchain env inputs =
     (fst (generate_email_content (chain_gen env)
             ''Send a thank you email to *******@gmail.com for the great meeting yesterday''),
      run_email_agent_langchain env inputs)"

section \<open>Concrete drafts and environments\<close>

text \<open>
  A stub environment for the send tool: \<^verbatim>\<open>json.loads\<close> knows a few texts, the message
  renders, and the transport accepts every call.
\<close>

definition draft_ok :: "(string \<times> json) list" where
  "draft_ok =
     [(''subject'', JStr ''Thanks''), (''body'', JStr ''Thank you for the meeting.''),
      (''to'', JList [JStr ''pat@example.org'', JStr ''lee@example.org'']),
      (''cc'', JList [JStr ''lee@example.org'']), (''bcc'', JList [JStr ''pat@example.org'']),
      (''priority'', JStr ''high'')]"

definition draft_no_subject :: "(string \<times> json) list" where
  "draft_no_subject = [(''body'', JStr ''Hello''), (''to'', JList [JStr ''pat@example.org''])]"

definition draft_empty_body :: "(string \<times> json) list" where
  "draft_empty_body =
     [(''subject'', JStr ''Thanks''), (''body'', JStr []), (''to'', JList [])]"

definition draft_no_recipient :: "(string \<times> json) list" where
  "draft_no_recipient =
     [(''subject'', JStr ''Thanks''), (''body'', JStr ''Hello''), (''to'', JList [])]"

definition draft_urgent :: "(string \<times> json) list" where
  "draft_urgent =
     [(''subject'', JStr ''Thanks''), (''body'', JStr ''Hello''),
      (''to'', JList [JStr ''pat@example.org'']), (''priority'', JStr ''urgent'')]"

definition stub_loads :: "string \<Rightarrow> py_exc + json" where
  "stub_loads s =
     (if s = ''ok'' then Inr (JObj draft_ok)
      else if s = ''no subject'' then Inr (JObj draft_no_subject)
      else if s = ''empty body'' then Inr (JObj draft_empty_body)
      else if s = ''no recipient'' then Inr (JObj draft_no_recipient)
      else if s = ''urgent'' then Inr (JObj draft_urgent)
      else if s = ''urgent as normal'' then
        Inr (JObj (AList.update ''priority'' (JStr ''normal'') draft_urgent))
      else Inl (JSONDecodeError ''Expecting value: line 1 column 1 (char 0)''))"

definition stub_smtp :: smtp_env where
  "stub_smtp =
     \<lparr> loads = stub_loads, as_string = (\<lambda>m. Inr ''text''), transport = (\<lambda>c. None) \<rparr>"

text \<open>A transport that refuses the login.\<close>

definition stub_smtp_refused :: smtp_env where
  "stub_smtp_refused =
     \<lparr> loads = stub_loads, as_string = (\<lambda>m. Inr ''text''),
       transport =
         (\<lambda>c. case c of
                  SMTP_login u p \<Rightarrow> Some (SMTPAuthenticationError ''535 bad credentials'')
                | _ \<Rightarrow> None) \<rparr>"

text \<open>
  What the three methods of \<^verbatim>\<open>str\<close> do on ASCII text, for the concrete runs below:
  the white space among the first 128 code points, \<^verbatim>\<open>lower()\<close> on the letters A to Z,
  \<^verbatim>\<open>strip()\<close> and \<^verbatim>\<open>split()\<close> at runs of white space.
\<close>

definition ascii_isspace :: "char \<Rightarrow> bool" where
  "ascii_isspace c =
     (c \<in> set [CHR 0x09, CHR 0x0A, CHR 0x0B, CHR 0x0C, CHR 0x0D,
                CHR 0x1C, CHR 0x1D, CHR 0x1E, CHR 0x1F, CHR 0x20])"

definition ascii_strip :: "string \<Rightarrow> string" where
  "ascii_strip s = rev (dropWhile ascii_isspace (rev (dropWhile ascii_isspace s)))"

definition ascii_lower :: "string \<Rightarrow> string" where
  "ascii_lower s =
     map (\<lambda>c. case map_of (zip ''ABCDEFGHIJKLMNOPQRSTUVWXYZ'' ''abcdefghijklmnopqrstuvwxyz'') c of
                 None \<Rightarrow> c | Some l \<Rightarrow> l) s"

fun ascii_split_from :: "string \<Rightarrow> string \<Rightarrow> string list" where
  "ascii_split_from word [] = (if word = [] then [] else [word])"
| "ascii_split_from word (c # cs) =
     (if ascii_isspace c
      then (if word = [] then ascii_split_from [] cs else word # ascii_split_from [] cs)
      else ascii_split_from (word @ [c]) cs)"

definition ascii_str :: str_lib where
  "ascii_str =
     \<lparr> str_lower = ascii_lower, str_strip = ascii_strip, str_split = ascii_split_from [] \<rparr>"

text \<open>
  A stub environment for synthesis: the credential is set, the completion echoes the
  request with white space around it, and \<^verbatim>\<open>json.loads\<close> knows four texts: an object with
  a subject and nothing else, an object whose \<open>to\<close> is the empty list, the empty array,
  and a string that holds the names of the six fields; on a text of brackets nested too
  deeply it raises \<^verbatim>\<open>RecursionError\<close>, on any other text \<^verbatim>\<open>JSONDecodeError\<close>.
\<close>

definition stub_gen_loads :: "string \<Rightarrow> py_exc + json" where
  "stub_gen_loads s =
     (if s = ''subject only'' then Inr (JObj [(''subject'', JStr ''Hi'')])
      else if s = ''no recipients'' then
        Inr (JObj [(''subject'', JStr ''Hi''), (''body'', JStr ''Hello''), (''to'', JList [])])
      else if s = ''[]'' then Inr (JList [])
      else if s = ''six names'' then Inr (JStr ''subject body to cc bcc priority'')
      else if s = ''deep'' then
        Inl (RecursionError ''maximum recursion depth exceeded while decoding a JSON array'')
      else Inl (JSONDecodeError ''Expecting value: line 1 column 1 (char 0)''))"

definition stub_gen :: gen_env where
  "stub_gen =
     \<lparr> api_key = Some ''sk-test'', new_client = (\<lambda>k. None),
       chat = (\<lambda>model query. Inr (Some (''  '' @ query @ [CHR 0x0A]))),
       gen_loads = stub_gen_loads, gen_str = ascii_str \<rparr>"

text \<open>
  A model that asks for \<^verbatim>\<open>send_email_smtp\<close> in its first answer, before any draft was
  generated or shown, and a classifier that takes every user turn for a confirmation.
\<close>

definition eager_llm :: "message list \<Rightarrow> py_exc + string \<times> tool_call list" where
  "eager_llm messages =
     (if list_ex is_AIMessage messages then Inr (''The email has been sent.'', [])
      else Inr ([], [ToolCall ''send_email_smtp'' ''ok'']))"

definition eager_agent :: agent_env where
  "eager_agent =
     \<lparr> llm = eager_llm, system_message = ''You are an intelligent email assistant'',
       dumps = (\<lambda>v. ''{}''), agent_str = ascii_str, gen = stub_gen, smtp = stub_smtp \<rparr>"

definition any_turn_affirmative :: "string \<Rightarrow> bool" where
  "any_turn_affirmative u = True"

text \<open>A session without the model credential: every model call raises.\<close>

definition no_key_agent :: agent_env where
  "no_key_agent =
     \<lparr> llm = (\<lambda>messages. Inl (OtherException ''The api_key client option must be set'')),
       system_message = ''You are an intelligent email assistant'',
       dumps = (\<lambda>v. ''{}''), agent_str = ascii_str,
       gen = stub_gen \<lparr> api_key := None \<rparr>, smtp = stub_smtp \<rparr>"

text \<open>
  Synthesis and the script of \<^verbatim>\<open>email_agent_langchain.py\<close> without the model credential:
  the constructors of the client and of the model object raise when they are given no key.
\<close>

definition no_key_gen :: gen_env where
  "no_key_gen =
     stub_gen \<lparr> api_key := None,
                new_client :=
                  (\<lambda>key. case key of
                           None \<Rightarrow> Some (OtherException ''The api_key client option must be set'')
                         | Some k \<Rightarrow> None) \<rparr>"

definition no_key_chain :: chain_env where
  "no_key_chain =
     \<lparr> chain_gen = no_key_gen,
       new_chat_model =
         (\<lambda>key. case key of
                  None \<Rightarrow> Some (OtherException ''The api_key client option must be set'')
                | Some k \<Rightarrow> None),
       new_executor = None,
       invoke = (\<lambda>line. Inr ''done''),
       chain_str = ascii_str \<rparr>"

section \<open>Properties of the send tool\<close>

lemma bind_exc_Inr: "bind_exc x f = Inr y \<longleftrightarrow> (\<exists>a. x = Inr a \<and> f a = Inr y)"
  by (cases x) auto

lemma py_get_field: "py_get (JObj d) k = Inr (field d k)"
  by (simp add: field_def split: option.splits)

lemma field_Some: "map_of d k = Some v \<Longrightarrow> field d k = v"
  by (simp add: field_def)

lemma as_strs_map_JStr: "as_strs (map JStr xs) = Some xs"
  by (induction xs) simp_all

lemma py_join_strs: "py_join sep (JList (map JStr xs)) = Inr (intercalate sep xs)"
  by (simp add: py_join_def as_strs_map_JStr)

subsection \<open>The three checks\<close>

lemma validate_subject:
  "\<not> truthy (field d ''subject'') \<Longrightarrow>
   validate_required (JObj d) = Inr (Some ''Error: Email subject is required'')"
  unfolding validate_required_def py_get_field by simp

lemma validate_body:
  "truthy (field d ''subject'') \<Longrightarrow> \<not> truthy (field d ''body'') \<Longrightarrow>
   validate_required (JObj d) = Inr (Some ''Error: Email body is required'')"
  unfolding validate_required_def py_get_field by simp

lemma validate_to:
  "truthy (field d ''subject'') \<Longrightarrow> truthy (field d ''body'') \<Longrightarrow>
   \<not> truthy (field d ''to'') \<Longrightarrow>
   validate_required (JObj d) = Inr (Some ''Error: At least one recipient is required'')"
  unfolding validate_required_def py_get_field by simp

lemma validate_valid:
  assumes "truthy (field d ''subject'')" "truthy (field d ''body'')"
    and "map_of d ''to'' = Some (JList (map JStr tos))" "tos \<noteq> []"
  shows "validate_required (JObj d) = Inr None"
  using assms unfolding validate_required_def py_get_field
  by (simp add: field_Some)

lemma send_early:
  "loads env js = Inr ed \<Longrightarrow> validate_required ed = Inr (Some msg) \<Longrightarrow>
   send_email_smtp env js = (msg, [])"
  by (simp add: send_email_smtp_def send_email_smtp_try_def)

lemma snd_send: "snd (send_email_smtp env js) = snd (send_email_smtp_try env js)"
  by (simp add: send_email_smtp_def split: prod.splits sum.splits)

lemma try_trace_cases:
  "snd (send_email_smtp_try env js) = [] \<or>
   (\<exists>ed m r. loads env js = Inr ed \<and> validate_required ed = Inr None \<and>
      create_message ed = Inr m \<and> prepare_recipients ed = Inr r \<and>
      send_email_smtp_try env js = smtp_deliver env m r)"
  by (simp add: send_email_smtp_try_def split: sum.splits option.splits)

subsection \<open>The recipients\<close>

lemma extend_strs:
  assumes "map_of d k = Some (JList (map JStr ys))"
  shows "extend_if_present (JObj d) k (JList (map JStr xs)) = Inr (JList (map JStr (xs @ ys)))"
  using assms by (cases ys) (simp_all add: extend_if_present_def)

lemma prepare_recipients_valid:
  assumes "map_of d ''to'' = Some (JList (map JStr tos))"
    and "map_of d ''cc'' = Some (JList (map JStr cc))"
    and "map_of d ''bcc'' = Some (JList (map JStr bcc))"
  shows "prepare_recipients (JObj d) = Inr (JList (map JStr (tos @ cc @ bcc)))"
  using assms extend_strs [OF assms(2), of tos] extend_strs [OF assms(3), of "tos @ cc"]
  by (simp add: prepare_recipients_def)

lemma deliver_recipients:
  "sendmail_recipients (snd (smtp_deliver env m r)) = [] \<or>
   sendmail_recipients (snd (smtp_deliver env m r)) = [r]"
  by (simp add: smtp_deliver_def split: option.splits sum.splits)

lemma deliver_recipients_ok:
  assumes "transport env (SMTP_connect SMTP_SERVER SMTP_PORT) = None"
    and "transport env SMTP_starttls = None"
    and "transport env (SMTP_login (JStr SENDER_EMAIL) (JStr SENDER_PASSWORD)) = None"
    and "as_string env m = Inr t"
  shows "sendmail_recipients (snd (smtp_deliver env m r)) = [r]"
  using assms by (simp add: smtp_deliver_def split: option.splits sum.splits)

lemma deliver_sendmail:
  assumes "SMTP_sendmail s r t \<in> set (snd (smtp_deliver env m rcpts))"
  shows "as_string env m = Inr t \<and> r = rcpts \<and> s = JStr SENDER_EMAIL"
  using assms
  by (auto simp: smtp_deliver_def split: option.splits sum.splits)

lemma optional_header_strs:
  assumes "map_of d k = Some (JList (map JStr ys))"
  shows "\<exists>hs. optional_header (JObj d) k name = Inr hs"
  using assms by (simp add: optional_header_def py_join_strs)

lemma create_message_valid:
  assumes "map_of d ''subject'' = Some subj"
    and "map_of d ''body'' = Some (JStr b)"
    and "map_of d ''to'' = Some (JList (map JStr tos))"
    and "map_of d ''cc'' = Some (JList (map JStr cc))"
    and "map_of d ''bcc'' = Some (JList (map JStr bcc))"
  shows "\<exists>m. create_message (JObj d) = Inr m"
proof -
  obtain h1 where h1: "optional_header (JObj d) ''cc'' ''Cc'' = Inr h1"
    using optional_header_strs [OF assms(4)] by blast
  obtain h2 where h2: "optional_header (JObj d) ''bcc'' ''Bcc'' = Inr h2"
    using optional_header_strs [OF assms(5)] by blast
  show ?thesis
    using assms(1-3) h1 h2
    by (simp add: create_message_def py_join_strs split: option.splits)
qed

subsection \<open>The priority markers\<close>

lemma optional_header_shape:
  "optional_header ed k name = Inr hs \<Longrightarrow> hs = [] \<or> (\<exists>v. hs = [(name, v)])"
  unfolding optional_header_def
  by (auto simp: bind_exc_Inr split: if_splits)

lemma priority_markers_of_headers:
  "filter (\<lambda>h. fst h = ''X-Priority'' \<or> fst h = ''X-MSMail-Priority'') (priority_headers p)
     = priority_headers p"
  by (simp add: priority_headers_def)

lemma create_message_markers:
  assumes "create_message (JObj d) = Inr m"
  shows "priority_markers m =
           priority_headers (case map_of d ''priority'' of None \<Rightarrow> JStr ''normal'' | Some v \<Rightarrow> v)"
proof -
  from assms obtain to_joined subject cc_header bcc_header priority part where
    cc: "optional_header (JObj d) ''cc'' ''Cc'' = Inr cc_header" and
    bcc: "optional_header (JObj d) ''bcc'' ''Bcc'' = Inr bcc_header" and
    p: "py_get_default (JObj d) ''priority'' (JStr ''normal'') = Inr priority" and
    m: "m = \<lparr> headers =
               [(''From'', JStr SENDER_EMAIL), (''To'', JStr to_joined), (''Subject'', subject)]
               @ cc_header @ bcc_header @ priority_headers priority,
             parts = [part] \<rparr>"
    unfolding create_message_def bind_exc_Inr by blast
  have c: "filter (\<lambda>h. fst h = ''X-Priority'' \<or> fst h = ''X-MSMail-Priority'') cc_header = []"
    using optional_header_shape [OF cc] by auto
  have b: "filter (\<lambda>h. fst h = ''X-Priority'' \<or> fst h = ''X-MSMail-Priority'') bcc_header = []"
    using optional_header_shape [OF bcc] by auto
  from p have p': "priority = (case map_of d ''priority'' of None \<Rightarrow> JStr ''normal'' | Some v \<Rightarrow> v)"
    by (simp split: option.splits)
  show ?thesis
    unfolding priority_markers_def m
    by (simp add: c b priority_markers_of_headers p')
qed

lemma send_sendmail:
  assumes "loads env js = Inr ed"
    and "SMTP_sendmail s r t \<in> set (snd (send_email_smtp env js))"
  shows "\<exists>m. create_message ed = Inr m \<and> as_string env m = Inr t"
proof -
  from assms(2) have ne: "snd (send_email_smtp_try env js) \<noteq> []"
    by (auto simp: snd_send)
  with try_trace_cases [of env js] obtain ed' m rc where
    "loads env js = Inr ed'" "create_message ed' = Inr m"
    "send_email_smtp_try env js = smtp_deliver env m rc"
    by blast
  with assms deliver_sendmail [of s r t env m rc] show ?thesis
    by (auto simp: snd_send)
qed

subsection \<open>A draft and the same draft with priority \<open>normal\<close>\<close>

lemma map_of_update_other:
  "k' \<noteq> k \<Longrightarrow> map_of (AList.update k v d) k' = map_of d k'"
  by (simp add: update_conv')

lemma validate_update_priority:
  "validate_required (JObj (AList.update ''priority'' v d)) = validate_required (JObj d)"
  unfolding validate_required_def
  by (simp add: map_of_update_other cong: if_cong)

lemma optional_header_update_priority:
  "k \<noteq> ''priority'' \<Longrightarrow>
   optional_header (JObj (AList.update ''priority'' v d)) k = optional_header (JObj d) k"
  unfolding optional_header_def
  by (rule ext) (simp add: map_of_update_other cong: if_cong)

lemma extend_update_priority:
  "k \<noteq> ''priority'' \<Longrightarrow>
   extend_if_present (JObj (AList.update ''priority'' v d)) k = extend_if_present (JObj d) k"
  unfolding extend_if_present_def
  by (rule ext) (simp add: map_of_update_other cong: if_cong)

lemma prepare_update_priority:
  "prepare_recipients (JObj (AList.update ''priority'' v d)) = prepare_recipients (JObj d)"
  unfolding prepare_recipients_def
  by (simp add: extend_update_priority map_of_update_other)

lemma create_update_priority:
  assumes "map_of d ''priority'' \<noteq> Some (JStr ''high'')"
    and "map_of d ''priority'' \<noteq> Some (JStr ''low'')"
  shows "create_message (JObj (AList.update ''priority'' (JStr ''normal'') d)) = create_message (JObj d)"
  using assms unfolding create_message_def
  by (cases "map_of d ''priority''")
     (simp_all add: update_conv' optional_header_update_priority priority_headers_def)

subsection \<open>Drafts that differ in the priority only\<close>

lemma bind_exc_Inl: "bind_exc x f = Inl e \<longleftrightarrow> x = Inl e \<or> (\<exists>a. x = Inr a \<and> f a = Inl e)"
  by (cases x) auto

lemma optional_header_no_marker:
  assumes "optional_header ed k name = Inr hs" and "name \<noteq> ''X-Priority''"
    and "name \<noteq> ''X-MSMail-Priority''"
  shows "filter (\<lambda>h. fst h \<noteq> ''X-Priority'' \<and> fst h \<noteq> ''X-MSMail-Priority'') hs = hs"
  using optional_header_shape [OF assms(1)] assms(2,3) by auto

lemma other_of_priority_headers:
  "filter (\<lambda>h. fst h \<noteq> ''X-Priority'' \<and> fst h \<noteq> ''X-MSMail-Priority'') (priority_headers p) = []"
  by (simp add: priority_headers_def)

lemma create_message_update_Inr:
  assumes "create_message (JObj d) = Inr m"
  shows "create_message (JObj (AList.update ''priority'' p d))
           = Inr (m \<lparr> headers := other_headers m @ priority_headers p \<rparr>)"
proof -
  from assms obtain to_item to_joined subject cc_header bcc_header priority body part where
    f: "py_getitem (JObj d) ''to'' = Inr to_item"
      "py_join '', '' to_item = Inr to_joined"
      "py_getitem (JObj d) ''subject'' = Inr subject"
      "optional_header (JObj d) ''cc'' ''Cc'' = Inr cc_header"
      "optional_header (JObj d) ''bcc'' ''Bcc'' = Inr bcc_header"
      "py_getitem (JObj d) ''body'' = Inr body"
      "mime_text body = Inr part" and
    m: "m = \<lparr> headers =
               [(''From'', JStr SENDER_EMAIL), (''To'', JStr to_joined), (''Subject'', subject)]
               @ cc_header @ bcc_header @ priority_headers priority,
             parts = [part] \<rparr>"
    unfolding create_message_def bind_exc_Inr by blast
  have c: "filter (\<lambda>h. fst h \<noteq> ''X-Priority'' \<and> fst h \<noteq> ''X-MSMail-Priority'') cc_header = cc_header"
    by (rule optional_header_no_marker [OF f(4)]) simp_all
  have b: "filter (\<lambda>h. fst h \<noteq> ''X-Priority'' \<and> fst h \<noteq> ''X-MSMail-Priority'') bcc_header = bcc_header"
    by (rule optional_header_no_marker [OF f(5)]) simp_all
  have o: "other_headers m =
             [(''From'', JStr SENDER_EMAIL), (''To'', JStr to_joined), (''Subject'', subject)]
             @ cc_header @ bcc_header"
    unfolding other_headers_def m by (simp add: c b other_of_priority_headers)
  have u: "py_getitem (JObj (AList.update ''priority'' p d)) ''to'' = Inr to_item"
    "py_getitem (JObj (AList.update ''priority'' p d)) ''subject'' = Inr subject"
    "py_getitem (JObj (AList.update ''priority'' p d)) ''body'' = Inr body"
    using f(1,3,6) by (simp_all add: map_of_update_other)
  have pr: "py_get_default (JObj (AList.update ''priority'' p d)) ''priority'' (JStr ''normal'') = Inr p"
    by (simp add: update_conv')
  show ?thesis
    unfolding create_message_def u pr optional_header_update_priority [of "''cc''", simplified]
      optional_header_update_priority [of "''bcc''", simplified] f bind_exc.simps o
    by (simp add: m)
qed

lemma create_message_update_Inl:
  assumes "create_message (JObj d) = Inl e"
  shows "create_message (JObj (AList.update ''priority'' p d)) = Inl e"
proof -
  have pr: "py_get_default (JObj (AList.update ''priority'' p d)) ''priority'' (JStr ''normal'') = Inr p"
    by (simp add: update_conv')
  obtain q where q: "py_get_default (JObj d) ''priority'' (JStr ''normal'') = Inr q"
    by (cases "map_of d ''priority''") simp_all
  have u: "py_getitem (JObj (AList.update ''priority'' p d)) ''to'' = py_getitem (JObj d) ''to''"
    "py_getitem (JObj (AList.update ''priority'' p d)) ''subject'' = py_getitem (JObj d) ''subject''"
    "py_getitem (JObj (AList.update ''priority'' p d)) ''body'' = py_getitem (JObj d) ''body''"
    by (simp_all add: map_of_update_other)
  from assms show ?thesis
    unfolding create_message_def u pr q optional_header_update_priority [of "''cc''", simplified]
      optional_header_update_priority [of "''bcc''", simplified] bind_exc.simps
    by (simp add: bind_exc_Inl)
qed

lemma deliver_prefix:
  "\<exists>t. prefix (snd (smtp_deliver env m r))
          [SMTP_connect SMTP_SERVER SMTP_PORT, SMTP_starttls,
           SMTP_login (JStr SENDER_EMAIL) (JStr SENDER_PASSWORD),
           SMTP_sendmail (JStr SENDER_EMAIL) r t, SMTP_quit]"
  by (auto simp: smtp_deliver_def split: option.splits sum.splits)

lemma send_sendmail_full:
  assumes "loads env js = Inr ed"
    and "SMTP_sendmail s r t \<in> set (snd (send_email_smtp env js))"
  shows "\<exists>m. create_message ed = Inr m \<and> as_string env m = Inr t \<and>
             prepare_recipients ed = Inr r \<and> s = JStr SENDER_EMAIL"
proof -
  from assms(2) have ne: "snd (send_email_smtp_try env js) \<noteq> []"
    by (auto simp: snd_send)
  with try_trace_cases [of env js] obtain ed' m rc where
    "loads env js = Inr ed'" "create_message ed' = Inr m" "prepare_recipients ed' = Inr rc"
    "send_email_smtp_try env js = smtp_deliver env m rc"
    by blast
  with assms deliver_sendmail [of s r t env m rc] show ?thesis
    by (auto simp: snd_send)
qed

lemma updated_message:
  "parts (m \<lparr> headers := other_headers m @ priority_headers p \<rparr>) = parts m \<and>
   other_headers (m \<lparr> headers := other_headers m @ priority_headers p \<rparr>) = other_headers m \<and>
   priority_markers (m \<lparr> headers := other_headers m @ priority_headers p \<rparr>) = priority_headers p"
proof -
  have "(\<lambda>x. fst x \<noteq> ''X-Priority'' \<and> fst x \<noteq> ''X-MSMail-Priority'' \<and>
             (fst x = ''X-Priority'' \<or> fst x = ''X-MSMail-Priority''))
        = (\<lambda>x::string \<times> json. False)"
    by auto
  then show ?thesis
    by (simp add: other_headers_def priority_markers_def priority_headers_def)
qed

lemma send_try_update_priority:
  assumes "loads env js = Inr (JObj d)"
    and "loads env js' = Inr (JObj (AList.update ''priority'' p d))"
  shows "send_email_smtp_try env js' = send_email_smtp_try env js \<or>
         (\<exists>m m' r. create_message (JObj d) = Inr m \<and>
            create_message (JObj (AList.update ''priority'' p d)) = Inr m' \<and>
            prepare_recipients (JObj d) = Inr r \<and>
            send_email_smtp_try env js = smtp_deliver env m r \<and>
            send_email_smtp_try env js' = smtp_deliver env m' r)"
proof (cases "create_message (JObj d)")
  case (Inl e)
  have "send_email_smtp_try env js' = send_email_smtp_try env js"
    unfolding send_email_smtp_try_def assms sum.case validate_update_priority
      prepare_update_priority create_message_update_Inl [OF Inl] Inl
    by (rule refl)
  then show ?thesis by blast
next
  case (Inr m)
  note m' = create_message_update_Inr [OF Inr, of p]
  show ?thesis
  proof (cases "validate_required (JObj d) = Inr None \<and> (\<exists>r. prepare_recipients (JObj d) = Inr r)")
    case True
    then obtain r where v: "validate_required (JObj d) = Inr None"
      and r: "prepare_recipients (JObj d) = Inr r" by blast
    have 1: "send_email_smtp_try env js = smtp_deliver env m r"
      by (simp add: send_email_smtp_try_def assms(1) v Inr r)
    have 2: "send_email_smtp_try env js' =
               smtp_deliver env (m \<lparr> headers := other_headers m @ priority_headers p \<rparr>) r"
      by (simp add: send_email_smtp_try_def assms(2) validate_update_priority v m'
          prepare_update_priority r)
    from Inr m' r 1 2 show ?thesis by blast
  next
    case False
    then have "send_email_smtp_try env js' = send_email_smtp_try env js"
      by (cases "validate_required (JObj d)"; cases "prepare_recipients (JObj d)")
         (auto simp: send_email_smtp_try_def assms validate_update_priority
            prepare_update_priority m' Inr split: option.splits)
    then show ?thesis by blast
  qed
qed


section \<open>Properties of \<^verbatim>\<open>send_email\<close> of \<^verbatim>\<open>smtp.py\<close>\<close>

lemma run_calls3:
  "run_calls T [a, b, c] =
     (case T a of Some e \<Rightarrow> (Some e, [a]) | None \<Rightarrow>
        (case T b of Some e \<Rightarrow> (Some e, [a, b]) | None \<Rightarrow>
           (case T c of Some e \<Rightarrow> (Some e, [a, b, c]) | None \<Rightarrow> (None, [a, b, c]))))"
  by (simp split: option.splits)

lemma run_calls2:
  "run_calls T [a, b] =
     (case T a of Some e \<Rightarrow> (Some e, [a]) | None \<Rightarrow>
        (case T b of Some e \<Rightarrow> (Some e, [a, b]) | None \<Rightarrow> (None, [a, b])))"
  by (simp split: option.splits)

lemma send_email_returns: "\<exists>b. fst (send_email env s bd se sp rc) = Inr b"
  by (cases "send_email_try env s bd se sp rc"; cases "fst (send_email_try env s bd se sp rc)")
     (auto simp add: send_email_def)

lemma send_email_not_True: "fst (send_email env s bd se sp rc) \<noteq> Inr True \<Longrightarrow>
   fst (send_email env s bd se sp rc) = Inr False"
  by (auto simp add: send_email_def split: prod.splits sum.splits)

lemma send_email_True_iff:
  "fst (send_email env s bd se sp rc) = Inr True \<longleftrightarrow>
     (\<exists>part text. mime_text bd = Inr part \<and>
        transport env (SMTP_connect ''smtp.gmail.com'' 587) = None \<and>
        transport env SMTP_starttls = None \<and>
        transport env (SMTP_login se sp) = None \<and>
        as_string env \<lparr> headers = [(''From'', se), (''To'', rc), (''Subject'', s)], parts = [part] \<rparr>
          = Inr text \<and>
        transport env (SMTP_sendmail se rc text) = None \<and>
        transport env SMTP_quit = None)"
  unfolding send_email_def send_email_try_def run_calls3 run_calls2
  by (auto split: sum.splits option.splits)

lemma send_email_True_trace:
  "fst (send_email env s bd se sp rc) = Inr True \<Longrightarrow>
     \<exists>text. snd (send_email env s bd se sp rc) =
       [SMTP_connect ''smtp.gmail.com'' 587, SMTP_starttls, SMTP_login se sp,
        SMTP_sendmail se rc text, SMTP_quit]"
  unfolding send_email_def send_email_try_def run_calls3 run_calls2
  by (auto split: sum.splits option.splits)

section \<open>Properties of synthesis\<close>

lemma repair_field_obj:
  "repair_field dflt (JObj d) k =
     Inr (JObj (if k \<in> set (map fst d) then d else AList.update k (dflt k) d))"
  by (simp add: repair_field_def)

lemma map_of_repair_one:
  "map_of (if k \<in> set (map fst d) then d else AList.update k v d) k' =
     (case map_of d k' of Some x \<Rightarrow> Some x | None \<Rightarrow> if k' = k then Some v else None)"
proof (cases "k \<in> set (map fst d)")
  case True
  then have "map_of d k \<noteq> None" by (simp add: map_of_eq_None_iff)
  with True show ?thesis by (auto split: option.splits)
next
  case False
  then have "map_of d k = None" by (simp add: map_of_eq_None_iff)
  with False show ?thesis by (auto simp: update_conv' split: option.splits)
qed

lemma repair_fields_obj:
  "\<exists>d'. repair_fields dflt ks (JObj d) = Inr (JObj d') \<and>
        (\<forall>k. map_of d' k =
           (case map_of d k of Some v \<Rightarrow> Some v
            | None \<Rightarrow> if k \<in> set ks then Some (dflt k) else None))"
proof (induction ks arbitrary: d)
  case Nil
  then show ?case by (simp split: option.splits)
next
  case (Cons k ks)
  let ?d1 = "if k \<in> set (map fst d) then d else AList.update k (dflt k) d"
  from Cons.IH [of ?d1] obtain d' where
    r: "repair_fields dflt ks (JObj ?d1) = Inr (JObj d')" and
    m: "\<forall>k'. map_of d' k' =
           (case map_of ?d1 k' of Some v \<Rightarrow> Some v
            | None \<Rightarrow> if k' \<in> set ks then Some (dflt k') else None)"
    by blast
  have "repair_fields dflt (k # ks) (JObj d) = Inr (JObj d')"
    using r by (simp add: repair_field_obj)
  moreover have "\<forall>k'. map_of d' k' =
           (case map_of d k' of Some v \<Rightarrow> Some v
            | None \<Rightarrow> if k' \<in> set (k # ks) then Some (dflt k') else None)"
    using m unfolding map_of_repair_one by (auto split: option.splits)
  ultimately show ?case by blast
qed


lemma ensure_recipient_obj:
  assumes "map_of d ''to'' = Some v"
  shows "ensure_recipient (JObj d) =
           Inr (JObj (if truthy v then d
                      else AList.update ''to'' (JList [JStr ''recipient@example.com'']) d))"
  using assms by (simp add: ensure_recipient_def)

lemma content_try_parsed:
  assumes "api_key env = Some k" and "k \<noteq> []" and "new_client env (Some k) = None"
    and "chat env ''gpt-3.5-turbo'' q = Inr (Some content)"
    and "gen_loads env (str_strip (gen_str env) content) = Inr email_data"
  shows "fst (generate_email_content_try env q) =
           (case bind_exc (repair_fields default_content required_fields email_data) ensure_recipient of
              Inl e \<Rightarrow> Inl (e, Some (str_strip (gen_str env) content))
            | Inr repaired \<Rightarrow> Inr repaired)"
  using assms by (simp add: generate_email_content_try_def split: sum.splits)

lemma generate_email_content_parsed:
  assumes "api_key env = Some k" and "k \<noteq> []" and "new_client env (Some k) = None"
    and "chat env ''gpt-3.5-turbo'' q = Inr (Some content)"
    and "gen_loads env (str_strip (gen_str env) content) = Inr (JObj d)"
  shows "\<exists>d'. fst (generate_email_content env q) = JObj d' \<and>
           map_of d' ''to'' =
             Some (case map_of d ''to'' of
                     None \<Rightarrow> JList [JStr ''recipient@example.com'']
                   | Some v \<Rightarrow> if truthy v then v else JList [JStr ''recipient@example.com'']) \<and>
           (\<forall>f. f \<noteq> ''to'' \<longrightarrow>
              map_of d' f =
                (case map_of d f of
                   Some v \<Rightarrow> Some v
                 | None \<Rightarrow> if f \<in> set required_fields then Some (default_content f) else None))"
proof -
  from repair_fields_obj [of default_content required_fields d] obtain d1 where
    r: "repair_fields default_content required_fields (JObj d) = Inr (JObj d1)" and
    m: "\<And>f. map_of d1 f =
           (case map_of d f of Some v \<Rightarrow> Some v
            | None \<Rightarrow> if f \<in> set required_fields then Some (default_content f) else None)"
    by blast
  define v1 where "v1 = (case map_of d ''to'' of None \<Rightarrow> JList [] | Some v \<Rightarrow> v)"
  have to1: "map_of d1 ''to'' = Some v1"
    unfolding m v1_def by (simp add: required_fields_def default_content_def split: option.splits)
  define d2 where
    "d2 = (if truthy v1 then d1 else AList.update ''to'' (JList [JStr ''recipient@example.com'']) d1)"
  have e: "ensure_recipient (JObj d1) = Inr (JObj d2)"
    unfolding d2_def by (rule ensure_recipient_obj [OF to1])
  have res: "fst (generate_email_content env q) = JObj d2"
    using content_try_parsed [OF assms] r e
    by (cases "generate_email_content_try env q") (simp add: generate_email_content_def)
  have to2: "map_of d2 ''to'' =
             Some (case map_of d ''to'' of
                     None \<Rightarrow> JList [JStr ''recipient@example.com'']
                   | Some v \<Rightarrow> if truthy v then v else JList [JStr ''recipient@example.com''])"
    using to1 unfolding d2_def v1_def by (auto simp: update_conv' split: option.splits)
  have other: "map_of d2 f =
                (case map_of d f of
                   Some v \<Rightarrow> Some v
                 | None \<Rightarrow> if f \<in> set required_fields then Some (default_content f) else None)"
    if "f \<noteq> ''to''" for f
    using that unfolding d2_def by (simp add: update_conv' m)
  from res to2 other show ?thesis by blast
qed

subsection \<open>Completion output that is not a JSON object\<close>

lemma repair_field_not_object:
  "\<not> is_object v \<Longrightarrow>
   (\<exists>m. repair_field dflt v k = Inl (TypeError m)) \<or> repair_field dflt v k = Inr v"
  by (cases v) (auto simp: repair_field_def)

lemma repair_fields_not_object:
  "\<not> is_object v \<Longrightarrow>
   (\<exists>m. repair_fields dflt ks v = Inl (TypeError m)) \<or> repair_fields dflt ks v = Inr v"
proof (induction ks)
  case Nil
  then show ?case by simp
next
  case (Cons k ks)
  from repair_field_not_object [OF Cons.prems, of dflt k] show ?case
  proof
    assume "\<exists>m. repair_field dflt v k = Inl (TypeError m)"
    then show ?thesis by auto
  next
    assume "repair_field dflt v k = Inr v"
    with Cons.IH [OF Cons.prems] show ?thesis by simp
  qed
qed

lemma ensure_recipient_not_object:
  "\<not> is_object v \<Longrightarrow> \<exists>m. ensure_recipient v = Inl (TypeError m)"
  by (cases v) (simp_all add: ensure_recipient_def)

lemma content_not_object:
  assumes "\<not> is_object v"
  shows "\<exists>m. bind_exc (repair_fields default_content required_fields v) ensure_recipient
              = Inl (TypeError m)"
  using repair_fields_not_object [OF assms, of default_content required_fields]
    ensure_recipient_not_object [OF assms]
  by auto

lemma generate_email_content_except_other:
  "\<not> is_JSONDecodeError e \<Longrightarrow>
   generate_email_content_except (e, c) =
     JObj [(''error'', JStr (''Email generation failed: '' @ str_exc e))]"
  by (cases e) simp_all

lemma generate_email_except_other:
  "\<not> is_JSONDecodeError e \<Longrightarrow>
   generate_email_except (e, c) = Inr (JObj [(''error'', JStr (''API call failed: '' @ str_exc e))])"
  by (cases e) simp_all

lemma generate_email_except_content:
  "\<exists>v. generate_email_except (e, Some c) = Inr v"
  by (cases e) simp_all

section \<open>Properties of the orchestrator\<close>

lemma executed_append: "executed (a @ b) = executed a @ executed b"
  by (induction a rule: executed.induct) simp_all

lemma requested_append: "requested (a @ b) = requested a @ requested b"
  by (induction a rule: requested.induct) simp_all

lemma executed_run_tool:
  "executed [snd (run_tool env c)] = (if is_tool c then [c] else [])"
  by (cases c) (simp add: run_tool_def is_tool_def split: prod.splits)

lemma requested_run_tool: "requested [snd (run_tool env c)] = []"
  by (cases c) (simp add: run_tool_def split: prod.splits)

lemma executed_tools: "executed (map (\<lambda>c. snd (run_tool env c)) cs) = filter is_tool cs"
proof (induction cs)
  case Nil
  then show ?case by simp
next
  case (Cons c cs)
  have "executed (map (\<lambda>c. snd (run_tool env c)) (c # cs))
          = executed ([snd (run_tool env c)] @ map (\<lambda>c. snd (run_tool env c)) cs)"
    by simp
  also have "\<dots> = (if is_tool c then [c] else []) @ filter is_tool cs"
    unfolding executed_append executed_run_tool Cons.IH ..
  finally show ?case by simp
qed

lemma requested_tools: "requested (map (\<lambda>c. snd (run_tool env c)) cs) = []"
proof (induction cs)
  case Nil
  then show ?case by simp
next
  case (Cons c cs)
  have "requested (map (\<lambda>c. snd (run_tool env c)) (c # cs))
          = requested ([snd (run_tool env c)] @ map (\<lambda>c. snd (run_tool env c)) cs)"
    by simp
  also have "\<dots> = []"
    unfolding requested_append requested_run_tool Cons.IH by simp
  finally show ?case .
qed

lemma last_tool_calls_snoc: "last_tool_calls (ms @ [AIMessage c calls]) = calls"
  by (induction ms rule: last_tool_calls.induct) simp_all

lemma call_model_shape:
  "call_model env ms = Inr response \<Longrightarrow> \<exists>c calls. response = [AIMessage c calls]"
  by (auto simp: call_model_def split: sum.splits)

lemma run_workflow_subseq:
  "subseq (executed (snd (run_workflow env n ms))) (requested (snd (run_workflow env n ms)))"
proof (induction env n ms rule: run_workflow.induct)
  case (1 env messages)
  then show ?case by simp
next
  case (2 env n messages)
  show ?case
  proof (cases "call_model env messages")
    case (Inl e)
    then show ?thesis by simp
  next
    case (Inr response)
    then obtain c calls where resp: "response = [AIMessage c calls]"
      using call_model_shape by blast
    have sc: "should_continue (messages @ response) = Inr (if calls \<noteq> [] then ''tools'' else ''__end__'')"
      by (simp add: should_continue_def resp)
    show ?thesis
    proof (cases "calls \<noteq> []")
      case False
      with Inr sc resp show ?thesis by simp
    next
      case True
      show ?thesis
      proof (cases n)
        case 0
        with Inr sc resp True show ?thesis by simp
      next
        case (Suc m)
        obtain tms tevs where tn: "tool_node env (messages @ response) = (tms, tevs)"
          by (cases "tool_node env (messages @ response)")
        obtain out evs where rw: "run_workflow env m (messages @ response @ tms) = (out, evs)"
          by (cases "run_workflow env m (messages @ response @ tms)")
        have sc': "should_continue (messages @ response) = Inr ''tools''"
          using sc True by simp
        have ih: "subseq (executed evs) (requested evs)"
          using "2.IH" [OF Inr sc' refl Suc tn [symmetric]] rw
          by simp
        have tevs: "tevs = map (\<lambda>c. snd (run_tool env c)) calls"
          using tn by (simp add: tool_node_def resp last_tool_calls_snoc)
        have res: "snd (run_workflow env (Suc n) messages) = EvAgent c calls # tevs @ evs"
          using Inr sc True Suc tn rw resp by simp
        show ?thesis
          unfolding res
          by (simp add: executed_append requested_append tevs executed_tools requested_tools
              ih list_emb_append_mono)
      qed
    qed
  qed
qed


lemma run_email_agent_subseq:
  "subseq (executed (run_email_agent env inputs)) (requested (run_email_agent env inputs))"
proof (induction inputs)
  case Nil
  then show ?case by simp
next
  case (Cons u rest)
  obtain out evs where rw: "run_workflow env recursion_limit [HumanMessage u] = (out, evs)"
    by (cases "run_workflow env recursion_limit [HumanMessage u]")
  have evs: "subseq (executed evs) (requested evs)"
    using run_workflow_subseq [of env recursion_limit "[HumanMessage u]"] rw by simp
  show ?case
    using Cons.IH evs rw
    by (cases out)
       (simp_all add: executed_append requested_append list_emb_append_mono del: set_simps)
qed

lemma subseq_member: "subseq xs ys \<Longrightarrow> x \<in> set xs \<Longrightarrow> x \<in> set ys"
  using list_emb_set [of "(=)" xs ys x] by auto

lemma EvSend_executed:
  "EvSend arg r tr \<in> set evs \<Longrightarrow> ToolCall ''send_email_smtp'' arg \<in> set (executed evs)"
  by (induction evs rule: executed.induct) auto

lemma requested_member:
  "call \<in> set (requested evs) \<Longrightarrow> \<exists>c calls. EvAgent c calls \<in> set evs \<and> call \<in> set calls"
  by (induction evs rule: requested.induct) auto

section \<open>Claims about the send tool\<close>

text \<open>
  Claim C4. For every draft given to \<^verbatim>\<open>send_email_smtp\<close>, the checks run before any call on
  the transport, in the order subject, body, recipients: a draft whose subject is empty
  (absent or falsy) is answered with the subject error; one with a subject and an empty
  body with the body error; one with subject and body and an empty \<open>to\<close> with the recipient
  error. In each case the function returns at once and nothing is called on the
  transport; hence the transport is called only for drafts that pass all three checks.
\<close>

theorem send_email_smtp_checks_before_transport:
  assumes "loads env js = Inr (JObj d)"
  shows "(\<not> truthy (field d ''subject'') \<longrightarrow>
            send_email_smtp env js = (''Error: Email subject is required'', []))
       \<and> (truthy (field d ''subject'') \<and> \<not> truthy (field d ''body'') \<longrightarrow>
            send_email_smtp env js = (''Error: Email body is required'', []))
       \<and> (truthy (field d ''subject'') \<and> truthy (field d ''body'') \<and> \<not> truthy (field d ''to'') \<longrightarrow>
            send_email_smtp env js = (''Error: At least one recipient is required'', []))
       \<and> (snd (send_email_smtp env js) \<noteq> [] \<longrightarrow>
            truthy (field d ''subject'') \<and> truthy (field d ''body'') \<and> truthy (field d ''to''))"
proof -
  have e1: "\<not> truthy (field d ''subject'') \<Longrightarrow>
            send_email_smtp env js = (''Error: Email subject is required'', [])"
    using send_early [OF assms] validate_subject [of d] by blast
  have e2: "truthy (field d ''subject'') \<Longrightarrow> \<not> truthy (field d ''body'') \<Longrightarrow>
            send_email_smtp env js = (''Error: Email body is required'', [])"
    using send_early [OF assms] validate_body [of d] by blast
  have e3: "truthy (field d ''subject'') \<Longrightarrow> truthy (field d ''body'') \<Longrightarrow>
            \<not> truthy (field d ''to'') \<Longrightarrow>
            send_email_smtp env js = (''Error: At least one recipient is required'', [])"
    using send_early [OF assms] validate_to [of d] by blast
  have g4: "truthy (field d ''subject'') \<and> truthy (field d ''body'') \<and> truthy (field d ''to'')"
    if ne: "snd (send_email_smtp env js) \<noteq> []"
  proof (rule ccontr)
    assume "\<not> (truthy (field d ''subject'') \<and> truthy (field d ''body'') \<and> truthy (field d ''to''))"
    then consider "\<not> truthy (field d ''subject'')"
      | "truthy (field d ''subject'')" "\<not> truthy (field d ''body'')"
      | "truthy (field d ''subject'')" "truthy (field d ''body'')" "\<not> truthy (field d ''to'')"
      by blast
    then have "snd (send_email_smtp env js) = []"
    proof cases
      case 1
      from e1 [OF this] show ?thesis by simp
    next
      case 2
      from e2 [OF this] show ?thesis by simp
    next
      case 3
      from e3 [OF this] show ?thesis by simp
    qed
    with ne show False by simp
  qed
  show ?thesis
  proof (intro conjI impI)
    assume "\<not> truthy (field d ''subject'')"
    then show "send_email_smtp env js = (''Error: Email subject is required'', [])" by (rule e1)
  next
    assume "truthy (field d ''subject'') \<and> \<not> truthy (field d ''body'')"
    then show "send_email_smtp env js = (''Error: Email body is required'', [])"
      using e2 by simp
  next
    assume "truthy (field d ''subject'') \<and> truthy (field d ''body'') \<and> \<not> truthy (field d ''to'')"
    then show "send_email_smtp env js = (''Error: At least one recipient is required'', [])"
      using e3 by simp
  next
    assume ne: "snd (send_email_smtp env js) \<noteq> []"
    from g4 [OF ne] show "truthy (field d ''subject'')" by simp
    from g4 [OF ne] show "truthy (field d ''body'')" by simp
    from g4 [OF ne] show "truthy (field d ''to'')" by simp
  qed
qed

theorem send_email_smtp_checks_before_transport_witness:
  "send_email_smtp stub_smtp ''no subject'' = (''Error: Email subject is required'', [])
 \<and> send_email_smtp stub_smtp ''empty body'' = (''Error: Email body is required'', [])
 \<and> send_email_smtp stub_smtp ''no recipient'' = (''Error: At least one recipient is required'', [])
 \<and> snd (send_email_smtp stub_smtp ''ok'') \<noteq> []
 \<and> truthy (field draft_ok ''subject'') \<and> truthy (field draft_ok ''body'')
 \<and> truthy (field draft_ok ''to'')"
proof -
  have l1: "loads stub_smtp ''no subject'' = Inr (JObj draft_no_subject)"
    and l2: "loads stub_smtp ''empty body'' = Inr (JObj draft_empty_body)"
    and l3: "loads stub_smtp ''no recipient'' = Inr (JObj draft_no_recipient)"
    and l4: "loads stub_smtp ''ok'' = Inr (JObj draft_ok)"
    by (simp_all add: stub_smtp_def stub_loads_def)
  have h1: "\<not> truthy (field draft_no_subject ''subject'')"
    by (simp add: field_def draft_no_subject_def)
  have h2: "truthy (field draft_empty_body ''subject'') \<and> \<not> truthy (field draft_empty_body ''body'')"
    by (simp add: field_def draft_empty_body_def)
  have h3: "truthy (field draft_no_recipient ''subject'') \<and> truthy (field draft_no_recipient ''body'')
            \<and> \<not> truthy (field draft_no_recipient ''to'')"
    by (simp add: field_def draft_no_recipient_def)
  have h4: "snd (send_email_smtp stub_smtp ''ok'') \<noteq> []"
    by code_simp
  note c1 = send_email_smtp_checks_before_transport [OF l1]
  note c2 = send_email_smtp_checks_before_transport [OF l2]
  note c3 = send_email_smtp_checks_before_transport [OF l3]
  note c4 = send_email_smtp_checks_before_transport [OF l4]
  from c1 h1 have r1: "send_email_smtp stub_smtp ''no subject'' = (''Error: Email subject is required'', [])"
    by (elim conjE) (erule mp)
  from c2 h2 have r2: "send_email_smtp stub_smtp ''empty body'' = (''Error: Email body is required'', [])"
    by (elim conjE) (erule mp, rule conjI)
  from c3 h3 have r3: "send_email_smtp stub_smtp ''no recipient'' = (''Error: At least one recipient is required'', [])"
    by (elim conjE) (erule mp, intro conjI)
  from c4 h4 have r4: "truthy (field draft_ok ''subject'') \<and> truthy (field draft_ok ''body'')
       \<and> truthy (field draft_ok ''to'')"
    by (elim conjE) (erule mp)
  from r1 r2 r3 h4 r4 show ?thesis by (intro conjI) (elim conjE, assumption)+
qed

text \<open>
  Claim C5. For every valid draft (non-empty subject and body, \<open>to\<close> a non-empty list of
  addresses, \<open>cc\<close> and \<open>bcc\<close> lists of addresses), the recipient list passed to the
  transport's \<^verbatim>\<open>sendmail\<close> is \<open>to\<close>, then \<open>cc\<close>, then \<open>bcc\<close>, each in its order and with
  duplicates kept: no \<^verbatim>\<open>sendmail\<close> call carries any other list, and there is such a call as
  soon as the transport accepts the connection, the TLS upgrade and the login and the
  message renders.
\<close>

theorem send_email_smtp_recipients:
  assumes "loads env js = Inr (JObj d)"
    and "map_of d ''subject'' = Some (JStr subj)" and "subj \<noteq> []"
    and "map_of d ''body'' = Some (JStr b)" and "b \<noteq> []"
    and "map_of d ''to'' = Some (JList (map JStr tos))" and "tos \<noteq> []"
    and "map_of d ''cc'' = Some (JList (map JStr cc))"
    and "map_of d ''bcc'' = Some (JList (map JStr bcc))"
  shows "(sendmail_recipients (snd (send_email_smtp env js)) = [] \<or>
          sendmail_recipients (snd (send_email_smtp env js)) = [JList (map JStr (tos @ cc @ bcc))])
       \<and> (transport env (SMTP_connect SMTP_SERVER SMTP_PORT) = None \<and>
          transport env SMTP_starttls = None \<and>
          transport env (SMTP_login (JStr SENDER_EMAIL) (JStr SENDER_PASSWORD)) = None \<and>
          (\<forall>m. \<exists>t. as_string env m = Inr t) \<longrightarrow>
          sendmail_recipients (snd (send_email_smtp env js)) = [JList (map JStr (tos @ cc @ bcc))])"
proof -
  have v: "validate_required (JObj d) = Inr None"
    using validate_valid [of d tos] assms(2-7) by (simp add: field_Some)
  have r: "prepare_recipients (JObj d) = Inr (JList (map JStr (tos @ cc @ bcc)))"
    by (rule prepare_recipients_valid [OF assms(6) assms(8) assms(9)])
  obtain m where m: "create_message (JObj d) = Inr m"
    using create_message_valid [OF assms(2) assms(4) assms(6) assms(8) assms(9)] by blast
  have eq: "send_email_smtp_try env js = smtp_deliver env m (JList (map JStr (tos @ cc @ bcc)))"
    using assms(1) m v r by (simp add: send_email_smtp_try_def)
  have a: "sendmail_recipients (snd (send_email_smtp env js)) = [] \<or>
          sendmail_recipients (snd (send_email_smtp env js)) = [JList (map JStr (tos @ cc @ bcc))]"
    using deliver_recipients [of env m "JList (map JStr (tos @ cc @ bcc))"] eq
    by (simp add: snd_send)
  have b: "sendmail_recipients (snd (send_email_smtp env js)) = [JList (map JStr (tos @ cc @ bcc))]"
    if "transport env (SMTP_connect SMTP_SERVER SMTP_PORT) = None"
      and "transport env SMTP_starttls = None"
      and "transport env (SMTP_login (JStr SENDER_EMAIL) (JStr SENDER_PASSWORD)) = None"
      and "\<forall>m. \<exists>t. as_string env m = Inr t"
  proof -
    from that(4) obtain t where "as_string env m = Inr t" by blast
    from deliver_recipients_ok [OF that(1-3) this] eq show ?thesis
      by (simp add: snd_send)
  qed
  from a b show ?thesis by blast
qed

theorem send_email_smtp_recipients_witness:
  "sendmail_recipients (snd (send_email_smtp stub_smtp ''ok''))
     = [JList [JStr ''pat@example.org'', JStr ''lee@example.org'', JStr ''lee@example.org'',
               JStr ''pat@example.org'']]"
proof -
  have l: "loads stub_smtp ''ok'' = Inr (JObj draft_ok)"
    by (simp add: stub_smtp_def stub_loads_def)
  have s: "map_of draft_ok ''subject'' = Some (JStr ''Thanks'')" "''Thanks'' \<noteq> []"
    and b: "map_of draft_ok ''body'' = Some (JStr ''Thank you for the meeting.'')"
      "''Thank you for the meeting.'' \<noteq> []"
    and t: "map_of draft_ok ''to'' = Some (JList (map JStr [''pat@example.org'', ''lee@example.org'']))"
      "[''pat@example.org'', ''lee@example.org''] \<noteq> []"
    and c: "map_of draft_ok ''cc'' = Some (JList (map JStr [''lee@example.org'']))"
    and bc: "map_of draft_ok ''bcc'' = Some (JList (map JStr [''pat@example.org'']))"
    by (simp_all add: draft_ok_def)
  have tr: "transport stub_smtp (SMTP_connect SMTP_SERVER SMTP_PORT) = None \<and>
          transport stub_smtp SMTP_starttls = None \<and>
          transport stub_smtp (SMTP_login (JStr SENDER_EMAIL) (JStr SENDER_PASSWORD)) = None \<and>
          (\<forall>m. \<exists>t. as_string stub_smtp m = Inr t)"
    by (simp add: stub_smtp_def)
  from send_email_smtp_recipients [OF l s b t c bc] tr show ?thesis
    by simp
qed

text \<open>
  Claim C6. The send tool maps the priority of the draft to headers of the message and to
  nothing else. The message handed to the transport's \<^verbatim>\<open>sendmail\<close> carries the markers
  \<^verbatim>\<open>X-Priority: 1\<close> and \<^verbatim>\<open>X-MSMail-Priority: High\<close> for priority \<open>high\<close>, the markers
  \<^verbatim>\<open>X-Priority: 5\<close> and \<^verbatim>\<open>X-MSMail-Priority: Low\<close> for priority \<open>low\<close>, and no priority marker
  for priority \<open>normal\<close>. A draft that differs from it in the priority only passes or fails
  the same checks, has the same recipients, fails to build its message with the same
  exception or builds a message with the same parts and the same other headers, and is
  either answered in the same way or handed to the same delivery with the same
  recipients; and the delivery of a message is one attempt: its calls on the transport
  are an initial part of connect, STARTTLS, login, sendmail, quit.
\<close>

theorem send_email_smtp_priority_markers:
  assumes "loads env js = Inr (JObj d)"
  shows "(\<forall>s r t. SMTP_sendmail s r t \<in> set (snd (send_email_smtp env js)) \<longrightarrow>
           (\<exists>m. create_message (JObj d) = Inr m \<and> as_string env m = Inr t \<and>
              prepare_recipients (JObj d) = Inr r \<and> s = JStr SENDER_EMAIL \<and>
              (map_of d ''priority'' = Some (JStr ''high'') \<longrightarrow>
                 priority_markers m =
                   [(''X-Priority'', JStr ''1''), (''X-MSMail-Priority'', JStr ''High'')]) \<and>
              (map_of d ''priority'' = Some (JStr ''low'') \<longrightarrow>
                 priority_markers m =
                   [(''X-Priority'', JStr ''5''), (''X-MSMail-Priority'', JStr ''Low'')]) \<and>
              (map_of d ''priority'' = Some (JStr ''normal'') \<longrightarrow> priority_markers m = [])))
       \<and> (\<forall>p. validate_required (JObj (AList.update ''priority'' p d)) = validate_required (JObj d) \<and>
              prepare_recipients (JObj (AList.update ''priority'' p d)) = prepare_recipients (JObj d) \<and>
              (\<forall>e. create_message (JObj d) = Inl e \<longrightarrow>
                   create_message (JObj (AList.update ''priority'' p d)) = Inl e) \<and>
              (\<forall>m. create_message (JObj d) = Inr m \<longrightarrow>
                   (\<exists>m'. create_message (JObj (AList.update ''priority'' p d)) = Inr m' \<and>
                         parts m' = parts m \<and> other_headers m' = other_headers m \<and>
                         priority_markers m' = priority_headers p)))
       \<and> (\<forall>p js'. loads env js' = Inr (JObj (AList.update ''priority'' p d)) \<longrightarrow>
              send_email_smtp_try env js' = send_email_smtp_try env js \<or>
              (\<exists>m m' r. create_message (JObj d) = Inr m \<and>
                 create_message (JObj (AList.update ''priority'' p d)) = Inr m' \<and>
                 prepare_recipients (JObj d) = Inr r \<and>
                 send_email_smtp_try env js = smtp_deliver env m r \<and>
                 send_email_smtp_try env js' = smtp_deliver env m' r))
       \<and> (\<forall>m r. \<exists>t. prefix (snd (smtp_deliver env m r))
              [SMTP_connect SMTP_SERVER SMTP_PORT, SMTP_starttls,
               SMTP_login (JStr SENDER_EMAIL) (JStr SENDER_PASSWORD),
               SMTP_sendmail (JStr SENDER_EMAIL) r t, SMTP_quit])"
proof (intro conjI allI impI)
  fix s r t
  assume h: "SMTP_sendmail s r t \<in> set (snd (send_email_smtp env js))"
  from send_sendmail_full [OF assms h] obtain m where
    m: "create_message (JObj d) = Inr m" and t: "as_string env m = Inr t"
    and r: "prepare_recipients (JObj d) = Inr r" and s: "s = JStr SENDER_EMAIL"
    by blast
  have "priority_markers m =
          priority_headers (case map_of d ''priority'' of None \<Rightarrow> JStr ''normal'' | Some v \<Rightarrow> v)"
    by (rule create_message_markers [OF m])
  then have "(map_of d ''priority'' = Some (JStr ''high'') \<longrightarrow>
              priority_markers m =
                [(''X-Priority'', JStr ''1''), (''X-MSMail-Priority'', JStr ''High'')]) \<and>
           (map_of d ''priority'' = Some (JStr ''low'') \<longrightarrow>
              priority_markers m =
                [(''X-Priority'', JStr ''5''), (''X-MSMail-Priority'', JStr ''Low'')]) \<and>
           (map_of d ''priority'' = Some (JStr ''normal'') \<longrightarrow> priority_markers m = [])"
    by (simp add: priority_headers_def)
  with m t r s show "\<exists>m. create_message (JObj d) = Inr m \<and> as_string env m = Inr t \<and>
              prepare_recipients (JObj d) = Inr r \<and> s = JStr SENDER_EMAIL \<and>
              (map_of d ''priority'' = Some (JStr ''high'') \<longrightarrow>
                 priority_markers m =
                   [(''X-Priority'', JStr ''1''), (''X-MSMail-Priority'', JStr ''High'')]) \<and>
              (map_of d ''priority'' = Some (JStr ''low'') \<longrightarrow>
                 priority_markers m =
                   [(''X-Priority'', JStr ''5''), (''X-MSMail-Priority'', JStr ''Low'')]) \<and>
              (map_of d ''priority'' = Some (JStr ''normal'') \<longrightarrow> priority_markers m = [])"
    by blast
next
  fix p
  show "validate_required (JObj (AList.update ''priority'' p d)) = validate_required (JObj d)"
    by (rule validate_update_priority)
  show "prepare_recipients (JObj (AList.update ''priority'' p d)) = prepare_recipients (JObj d)"
    by (rule prepare_update_priority)
next
  fix p e
  assume "create_message (JObj d) = Inl e"
  then show "create_message (JObj (AList.update ''priority'' p d)) = Inl e"
    by (rule create_message_update_Inl)
next
  fix p m
  assume "create_message (JObj d) = Inr m"
  from create_message_update_Inr [OF this, of p] updated_message [of m p]
  show "\<exists>m'. create_message (JObj (AList.update ''priority'' p d)) = Inr m' \<and>
              parts m' = parts m \<and> other_headers m' = other_headers m \<and>
              priority_markers m' = priority_headers p"
    by blast
next
  fix p js'
  assume "loads env js' = Inr (JObj (AList.update ''priority'' p d))"
  with assms show "send_email_smtp_try env js' = send_email_smtp_try env js \<or>
              (\<exists>m m' r. create_message (JObj d) = Inr m \<and>
                 create_message (JObj (AList.update ''priority'' p d)) = Inr m' \<and>
                 prepare_recipients (JObj d) = Inr r \<and>
                 send_email_smtp_try env js = smtp_deliver env m r \<and>
                 send_email_smtp_try env js' = smtp_deliver env m' r)"
    by (rule send_try_update_priority)
next
  fix m r
  show "\<exists>t. prefix (snd (smtp_deliver env m r))
              [SMTP_connect SMTP_SERVER SMTP_PORT, SMTP_starttls,
               SMTP_login (JStr SENDER_EMAIL) (JStr SENDER_PASSWORD),
               SMTP_sendmail (JStr SENDER_EMAIL) r t, SMTP_quit]"
    by (rule deliver_prefix)
qed

theorem send_email_smtp_priority_markers_witness:
  "\<exists>m m'. create_message (JObj draft_ok) = Inr m \<and> as_string stub_smtp m = Inr ''text'' \<and>
        priority_markers m = [(''X-Priority'', JStr ''1''), (''X-MSMail-Priority'', JStr ''High'')] \<and>
        create_message (JObj (AList.update ''priority'' (JStr ''low'') draft_ok)) = Inr m' \<and>
        parts m' = parts m \<and> other_headers m' = other_headers m \<and>
        priority_markers m' = [(''X-Priority'', JStr ''5''), (''X-MSMail-Priority'', JStr ''Low'')]"
proof -
  have l: "loads stub_smtp ''ok'' = Inr (JObj draft_ok)"
    by (simp add: stub_smtp_def stub_loads_def)
  have tr: "snd (send_email_smtp stub_smtp ''ok'') =
      [SMTP_connect ''smtp.gmail.com'' 587, SMTP_starttls, SMTP_login (JStr []) (JStr []),
       SMTP_sendmail (JStr [])
         (JList [JStr ''pat@example.org'', JStr ''lee@example.org'', JStr ''lee@example.org'',
                 JStr ''pat@example.org'']) ''text'',
       SMTP_quit]"
    by code_simp
  have h: "SMTP_sendmail (JStr [])
         (JList [JStr ''pat@example.org'', JStr ''lee@example.org'', JStr ''lee@example.org'',
                 JStr ''pat@example.org'']) ''text'' \<in> set (snd (send_email_smtp stub_smtp ''ok''))"
    unfolding tr by simp
  have p: "map_of draft_ok ''priority'' = Some (JStr ''high'')"
    by (simp add: draft_ok_def)
  have q: "priority_headers (JStr ''low'')
             = [(''X-Priority'', JStr ''5''), (''X-MSMail-Priority'', JStr ''Low'')]"
    by (simp add: priority_headers_def)
  note t = send_email_smtp_priority_markers [OF l]
  from t h p obtain m where m: "create_message (JObj draft_ok) = Inr m"
    "as_string stub_smtp m = Inr ''text''"
    "priority_markers m = [(''X-Priority'', JStr ''1''), (''X-MSMail-Priority'', JStr ''High'')]"
    by blast
  from t m(1) obtain m' where
    "create_message (JObj (AList.update ''priority'' (JStr ''low'') draft_ok)) = Inr m'"
    "parts m' = parts m" "other_headers m' = other_headers m"
    "priority_markers m' = priority_headers (JStr ''low'')"
    by blast
  with m q show ?thesis by auto
qed

text \<open>
  Claim C10. For every priority value other than the exact strings \<open>high\<close> and \<open>low\<close>,
  an absent priority and an unrecognised value such as \<open>urgent\<close> included, the send tool
  puts no priority marker into the message, and returns the same result and makes the
  same calls on the transport as for the same draft with priority \<open>normal\<close>.
\<close>

theorem send_email_smtp_other_priority_as_normal:
  assumes "loads env js = Inr (JObj d)"
    and "loads env js' = Inr (JObj (AList.update ''priority'' (JStr ''normal'') d))"
    and "map_of d ''priority'' \<noteq> Some (JStr ''high'')"
    and "map_of d ''priority'' \<noteq> Some (JStr ''low'')"
  shows "send_email_smtp env js = send_email_smtp env js' \<and>
         (\<forall>m. create_message (JObj d) = Inr m \<longrightarrow> priority_markers m = [])"
proof
  have "send_email_smtp_try env js = send_email_smtp_try env js'"
    unfolding send_email_smtp_try_def assms(1) assms(2) sum.case validate_update_priority
      prepare_update_priority create_update_priority [OF assms(3) assms(4)]
    by (rule refl)
  then show "send_email_smtp env js = send_email_smtp env js'"
    by (simp add: send_email_smtp_def)
next
  show "\<forall>m. create_message (JObj d) = Inr m \<longrightarrow> priority_markers m = []"
    using assms(3,4)
    by (auto simp: create_message_markers priority_headers_def split: option.splits)
qed

theorem send_email_smtp_other_priority_as_normal_witness:
  "map_of draft_urgent ''priority'' = Some (JStr ''urgent'')
 \<and> send_email_smtp stub_smtp ''urgent'' = send_email_smtp stub_smtp ''urgent as normal''
 \<and> (\<exists>m. create_message (JObj draft_urgent) = Inr m \<and> priority_markers m = [])"
proof -
  have l: "loads stub_smtp ''urgent'' = Inr (JObj draft_urgent)"
    and l': "loads stub_smtp ''urgent as normal''
              = Inr (JObj (AList.update ''priority'' (JStr ''normal'') draft_urgent))"
    by (simp_all add: stub_smtp_def stub_loads_def)
  have p: "map_of draft_urgent ''priority'' = Some (JStr ''urgent'')"
    by (simp add: draft_urgent_def)
  have h: "map_of draft_urgent ''priority'' \<noteq> Some (JStr ''high'')"
    "map_of draft_urgent ''priority'' \<noteq> Some (JStr ''low'')"
    by (simp_all add: p)
  have m: "\<exists>m. create_message (JObj draft_urgent) = Inr m"
    by (simp add: create_message_def optional_header_def py_join_def draft_urgent_def)
  from send_email_smtp_other_priority_as_normal [OF l l' h] p m show ?thesis
    by blast
qed

section \<open>Claim about \<^verbatim>\<open>send_email\<close> of \<^verbatim>\<open>smtp.py\<close>\<close>

text \<open>
  Claim C9. For every input, \<^verbatim>\<open>send_email\<close> returns a value and never lets an exception
  reach its caller; it returns \<^verbatim>\<open>True\<close> exactly when the message is built and rendered and
  every step of the SMTP transaction (connect, STARTTLS, login, sendmail, quit) succeeds,
  in which case these five calls are the calls made on the transport; in every other
  case it returns \<^verbatim>\<open>False\<close>.
\<close>

theorem send_email_total:
  "(\<exists>b. fst (send_email env subject body sender_email sender_password recipient_email) = Inr b)
 \<and> (fst (send_email env subject body sender_email sender_password recipient_email) = Inr True
      \<longleftrightarrow>
      (\<exists>part text. mime_text body = Inr part \<and>
         transport env (SMTP_connect ''smtp.gmail.com'' 587) = None \<and>
         transport env SMTP_starttls = None \<and>
         transport env (SMTP_login sender_email sender_password) = None \<and>
         as_string env
           \<lparr> headers = [(''From'', sender_email), (''To'', recipient_email), (''Subject'', subject)],
             parts = [part] \<rparr> = Inr text \<and>
         transport env (SMTP_sendmail sender_email recipient_email text) = None \<and>
         transport env SMTP_quit = None))
 \<and> (fst (send_email env subject body sender_email sender_password recipient_email) = Inr True
      \<longrightarrow>
      (\<exists>text. snd (send_email env subject body sender_email sender_password recipient_email) =
         [SMTP_connect ''smtp.gmail.com'' 587, SMTP_starttls,
          SMTP_login sender_email sender_password,
          SMTP_sendmail sender_email recipient_email text, SMTP_quit]))
 \<and> (fst (send_email env subject body sender_email sender_password recipient_email) \<noteq> Inr True
      \<longrightarrow>
      fst (send_email env subject body sender_email sender_password recipient_email) = Inr False)"
proof (intro conjI)
  show "\<exists>b. fst (send_email env subject body sender_email sender_password recipient_email) = Inr b"
    by (rule send_email_returns)
next
  show "fst (send_email env subject body sender_email sender_password recipient_email) = Inr True
      \<longleftrightarrow>
      (\<exists>part text. mime_text body = Inr part \<and>
         transport env (SMTP_connect ''smtp.gmail.com'' 587) = None \<and>
         transport env SMTP_starttls = None \<and>
         transport env (SMTP_login sender_email sender_password) = None \<and>
         as_string env
           \<lparr> headers = [(''From'', sender_email), (''To'', recipient_email), (''Subject'', subject)],
             parts = [part] \<rparr> = Inr text \<and>
         transport env (SMTP_sendmail sender_email recipient_email text) = None \<and>
         transport env SMTP_quit = None)"
    by (rule send_email_True_iff)
next
  show "fst (send_email env subject body sender_email sender_password recipient_email) = Inr True
      \<longrightarrow>
      (\<exists>text. snd (send_email env subject body sender_email sender_password recipient_email) =
         [SMTP_connect ''smtp.gmail.com'' 587, SMTP_starttls,
          SMTP_login sender_email sender_password,
          SMTP_sendmail sender_email recipient_email text, SMTP_quit])"
    using send_email_True_trace by blast
next
  show "fst (send_email env subject body sender_email sender_password recipient_email) \<noteq> Inr True
      \<longrightarrow>
      fst (send_email env subject body sender_email sender_password recipient_email) = Inr False"
    using send_email_not_True by blast
qed

theorem send_email_total_witness:
  "fst (send_email stub_smtp (JStr ''Hi'') (JStr ''Hello'') (JStr ''me@example.org'')
          (JStr ''secret'') (JStr ''pat@example.org'')) = Inr True
 \<and> fst (send_email stub_smtp_refused (JStr ''Hi'') (JStr ''Hello'') (JStr ''me@example.org'')
          (JStr ''secret'') (JStr ''pat@example.org'')) = Inr False
 \<and> fst (send_email stub_smtp (JStr ''Hi'') JNull (JStr ''me@example.org'')
          (JStr ''secret'') (JStr ''pat@example.org'')) = Inr False"
proof -
  note ok = send_email_total [of stub_smtp "JStr ''Hi''" "JStr ''Hello''" "JStr ''me@example.org''"
      "JStr ''secret''" "JStr ''pat@example.org''"]
  note refused = send_email_total [of stub_smtp_refused "JStr ''Hi''" "JStr ''Hello''"
      "JStr ''me@example.org''" "JStr ''secret''" "JStr ''pat@example.org''"]
  note no_body = send_email_total [of stub_smtp "JStr ''Hi''" JNull "JStr ''me@example.org''"
      "JStr ''secret''" "JStr ''pat@example.org''"]
  have 1: "fst (send_email stub_smtp (JStr ''Hi'') (JStr ''Hello'') (JStr ''me@example.org'')
          (JStr ''secret'') (JStr ''pat@example.org'')) = Inr True"
    using ok by (simp add: stub_smtp_def)
  have "transport stub_smtp_refused (SMTP_login (JStr ''me@example.org'') (JStr ''secret'')) \<noteq> None"
    by (simp add: stub_smtp_refused_def)
  with refused
  have 2: "fst (send_email stub_smtp_refused (JStr ''Hi'') (JStr ''Hello'') (JStr ''me@example.org'')
          (JStr ''secret'') (JStr ''pat@example.org'')) = Inr False"
    by blast
  have "\<not> (\<exists>part. mime_text JNull = Inr part)"
    by simp
  with no_body
  have 3: "fst (send_email stub_smtp (JStr ''Hi'') JNull (JStr ''me@example.org'')
          (JStr ''secret'') (JStr ''pat@example.org'')) = Inr False"
    by blast
  from 1 2 3 show ?thesis by blast
qed

section \<open>Claims about synthesis\<close>

text \<open>
  Claim C7, as the code has it. Given an output of the completion service: when
  \<^verbatim>\<open>json.loads\<close> raises \<^verbatim>\<open>JSONDecodeError\<close> on it, \<^verbatim>\<open>generate_email\<close> and
  \<^verbatim>\<open>generate_email_content\<close> return the error value \<open>Failed to parse JSON response\<close> that
  carries the raw text (the output after \<^verbatim>\<open>strip()\<close>); when \<^verbatim>\<open>json.loads\<close> raises another
  exception, each returns its generic error value, which has no raw text, and so does
  \<^verbatim>\<open>generate_email_content\<close> when the output parses to a JSON value that is not an object;
  and once its client is built, \<^verbatim>\<open>generate_email\<close> returns a value whatever the output is,
  so that no exception reaches the caller (\<^verbatim>\<open>generate_email_content\<close> returns a value on
  every path). The statements about \<^verbatim>\<open>generate_email_content\<close>, whose model is
  \<^verbatim>\<open>gpt-3.5-turbo\<close>, are for a credential that is present and a client that is built.
\<close>

theorem synthesis_unparsed_output:
  assumes "chat env model query = Inr (Some content)"
  shows "(\<forall>m. gen_loads env (str_strip (gen_str env) content) = Inl (JSONDecodeError m) \<longrightarrow>
            (new_client env (api_key env) = None \<longrightarrow>
               fst (generate_email env query model) =
                 Inr (JObj [(''error'', JStr (''Failed to parse JSON response: '' @ m)),
                            (''raw_response'', JStr (str_strip (gen_str env) content))]))
          \<and> (model = ''gpt-3.5-turbo'' \<and> api_key env \<noteq> None \<and> api_key env \<noteq> Some [] \<and>
             new_client env (api_key env) = None \<longrightarrow>
               fst (generate_email_content env query) =
                 JObj [(''error'', JStr (''Failed to parse JSON response: '' @ m)),
                       (''raw_response'', JStr (str_strip (gen_str env) content))]))
       \<and> (\<forall>e. gen_loads env (str_strip (gen_str env) content) = Inl e \<and> \<not> is_JSONDecodeError e \<longrightarrow>
            (new_client env (api_key env) = None \<longrightarrow>
               fst (generate_email env query model) =
                 Inr (JObj [(''error'', JStr (''API call failed: '' @ str_exc e))]))
          \<and> (model = ''gpt-3.5-turbo'' \<and> api_key env \<noteq> None \<and> api_key env \<noteq> Some [] \<and>
             new_client env (api_key env) = None \<longrightarrow>
               fst (generate_email_content env query) =
                 JObj [(''error'', JStr (''Email generation failed: '' @ str_exc e))]))
       \<and> (\<forall>v. gen_loads env (str_strip (gen_str env) content) = Inr v \<and> \<not> is_object v \<and>
             model = ''gpt-3.5-turbo'' \<and> api_key env \<noteq> None \<and> api_key env \<noteq> Some [] \<and>
             new_client env (api_key env) = None \<longrightarrow>
               (\<exists>msg. fst (generate_email_content env query) =
                  JObj [(''error'', JStr (''Email generation failed: '' @ msg))]))
       \<and> (new_client env (api_key env) = None \<longrightarrow>
            (\<exists>v. fst (generate_email env query model) = Inr v))"
proof (intro conjI allI impI)
  fix m
  assume l: "gen_loads env (str_strip (gen_str env) content) = Inl (JSONDecodeError m)"
  {
    assume "new_client env (api_key env) = None"
    with assms l show "fst (generate_email env query model) =
                 Inr (JObj [(''error'', JStr (''Failed to parse JSON response: '' @ m)),
                            (''raw_response'', JStr (str_strip (gen_str env) content))])"
      by (simp add: generate_email_def generate_email_try_def)
  }
  {
    assume a: "model = ''gpt-3.5-turbo'' \<and> api_key env \<noteq> None \<and> api_key env \<noteq> Some [] \<and>
             new_client env (api_key env) = None"
    with assms have c: "chat env ''gpt-3.5-turbo'' query = Inr (Some content)" by simp
    from a c l show "fst (generate_email_content env query) =
                 JObj [(''error'', JStr (''Failed to parse JSON response: '' @ m)),
                       (''raw_response'', JStr (str_strip (gen_str env) content))]"
      by (simp add: generate_email_content_def generate_email_content_try_def)
  }
next
  fix e
  assume l: "gen_loads env (str_strip (gen_str env) content) = Inl e \<and> \<not> is_JSONDecodeError e"
  {
    assume "new_client env (api_key env) = None"
    with assms l show "fst (generate_email env query model) =
                 Inr (JObj [(''error'', JStr (''API call failed: '' @ str_exc e))])"
      by (simp add: generate_email_def generate_email_try_def generate_email_except_other)
  }
  {
    assume a: "model = ''gpt-3.5-turbo'' \<and> api_key env \<noteq> None \<and> api_key env \<noteq> Some [] \<and>
             new_client env (api_key env) = None"
    with assms have c: "chat env ''gpt-3.5-turbo'' query = Inr (Some content)" by simp
    from a c l show "fst (generate_email_content env query) =
                 JObj [(''error'', JStr (''Email generation failed: '' @ str_exc e))]"
      by (simp add: generate_email_content_def generate_email_content_try_def
          generate_email_content_except_other)
  }
next
  fix v
  assume a: "gen_loads env (str_strip (gen_str env) content) = Inr v \<and> \<not> is_object v \<and>
             model = ''gpt-3.5-turbo'' \<and> api_key env \<noteq> None \<and> api_key env \<noteq> Some [] \<and>
             new_client env (api_key env) = None"
  with assms have c: "chat env ''gpt-3.5-turbo'' query = Inr (Some content)" by simp
  from a content_not_object [of v] obtain msg where
    r: "bind_exc (repair_fields default_content required_fields v) ensure_recipient
          = Inl (TypeError msg)"
    by blast
  have "fst (generate_email_content env query) =
          JObj [(''error'', JStr (''Email generation failed: '' @ msg))]"
    using a c r by (simp add: generate_email_content_def generate_email_content_try_def)
  then show "\<exists>msg. fst (generate_email_content env query) =
                  JObj [(''error'', JStr (''Email generation failed: '' @ msg))]"
    by blast
next
  assume n: "new_client env (api_key env) = None"
  show "\<exists>v. fst (generate_email env query model) = Inr v"
  proof (cases "generate_email_try env query model")
    case (Inr v)
    with n show ?thesis by (simp add: generate_email_def)
  next
    case (Inl f)
    with assms obtain e where "f = (e, Some (str_strip (gen_str env) content))"
      by (auto simp: generate_email_try_def split: sum.splits)
    with Inl n generate_email_except_content [of e "str_strip (gen_str env) content"]
    show ?thesis by (auto simp: generate_email_def)
  qed
qed

theorem synthesis_unparsed_output_witness:
  "fst (generate_email stub_gen ''Dear Pat'' ''gpt-3.5-turbo'') =
     Inr (JObj [(''error'',
                 JStr ''Failed to parse JSON response: Expecting value: line 1 column 1 (char 0)''),
                (''raw_response'', JStr ''Dear Pat'')])
 \<and> fst (generate_email_content stub_gen ''Dear Pat'') =
     JObj [(''error'',
            JStr ''Failed to parse JSON response: Expecting value: line 1 column 1 (char 0)''),
           (''raw_response'', JStr ''Dear Pat'')]
 \<and> fst (generate_email_content stub_gen ''deep'') =
     JObj [(''error'',
            JStr ''Email generation failed: maximum recursion depth exceeded while decoding a JSON array'')]
 \<and> (\<exists>msg. fst (generate_email_content stub_gen ''[]'') =
        JObj [(''error'', JStr (''Email generation failed: '' @ msg))])
 \<and> (\<exists>v. fst (generate_email stub_gen ''[]'' ''gpt-3.5-turbo'') = Inr v)"
proof -
  have k: "new_client stub_gen (api_key stub_gen) = None"
    "api_key stub_gen \<noteq> None" "api_key stub_gen \<noteq> Some []"
    by (simp_all add: stub_gen_def)
  have c1: "chat stub_gen ''gpt-3.5-turbo'' ''Dear Pat'' = Inr (Some (''  Dear Pat'' @ [CHR 0x0A]))"
    and c2: "chat stub_gen ''gpt-3.5-turbo'' ''deep'' = Inr (Some (''  deep'' @ [CHR 0x0A]))"
    and c3: "chat stub_gen ''gpt-3.5-turbo'' ''[]'' = Inr (Some (''  []'' @ [CHR 0x0A]))"
    by (simp_all add: stub_gen_def)
  have s1: "str_strip (gen_str stub_gen) (''  Dear Pat'' @ [CHR 0x0A]) = ''Dear Pat''"
    and s2: "str_strip (gen_str stub_gen) (''  deep'' @ [CHR 0x0A]) = ''deep''"
    and s3: "str_strip (gen_str stub_gen) (''  []'' @ [CHR 0x0A]) = ''[]''"
    by code_simp+
  have l1: "gen_loads stub_gen (str_strip (gen_str stub_gen) (''  Dear Pat'' @ [CHR 0x0A]))
             = Inl (JSONDecodeError ''Expecting value: line 1 column 1 (char 0)'')"
    unfolding s1 by (simp add: stub_gen_def stub_gen_loads_def)
  have l2: "gen_loads stub_gen (str_strip (gen_str stub_gen) (''  deep'' @ [CHR 0x0A]))
             = Inl (RecursionError ''maximum recursion depth exceeded while decoding a JSON array'')
           \<and> \<not> is_JSONDecodeError
                 (RecursionError ''maximum recursion depth exceeded while decoding a JSON array'')"
    unfolding s2 by (simp add: stub_gen_def stub_gen_loads_def)
  have l3: "gen_loads stub_gen (str_strip (gen_str stub_gen) (''  []'' @ [CHR 0x0A])) = Inr (JList [])
           \<and> \<not> is_object (JList [])"
    unfolding s3 by (simp add: stub_gen_def stub_gen_loads_def)
  note t1 = synthesis_unparsed_output [OF c1]
  note t2 = synthesis_unparsed_output [OF c2]
  note t3 = synthesis_unparsed_output [OF c3]
  from t1 l1 k have r1: "fst (generate_email stub_gen ''Dear Pat'' ''gpt-3.5-turbo'') =
     Inr (JObj [(''error'',
                 JStr (''Failed to parse JSON response: '' @ ''Expecting value: line 1 column 1 (char 0)'')),
                (''raw_response'', JStr (str_strip (gen_str stub_gen) (''  Dear Pat'' @ [CHR 0x0A])))])"
    by blast
  from t1 l1 k have r2: "fst (generate_email_content stub_gen ''Dear Pat'') =
     JObj [(''error'',
            JStr (''Failed to parse JSON response: '' @ ''Expecting value: line 1 column 1 (char 0)'')),
           (''raw_response'', JStr (str_strip (gen_str stub_gen) (''  Dear Pat'' @ [CHR 0x0A])))]"
    by blast
  from t2 l2 k have r3: "fst (generate_email_content stub_gen ''deep'') =
     JObj [(''error'',
            JStr (''Email generation failed: '' @
              str_exc (RecursionError ''maximum recursion depth exceeded while decoding a JSON array'')))]"
    by blast
  from t3 l3 k have r4: "\<exists>msg. fst (generate_email_content stub_gen ''[]'') =
        JObj [(''error'', JStr (''Email generation failed: '' @ msg))]"
    by blast
  from t3 k have r5: "\<exists>v. fst (generate_email stub_gen ''[]'' ''gpt-3.5-turbo'') = Inr v"
    by blast
  from r1 r2 r3 r4 r5 show ?thesis
    unfolding s1 by simp
qed

text \<open>
  Claim C7, as stated, fails for an output that \<^verbatim>\<open>json.loads\<close> parses, but not to an object.
  For the output \<^verbatim>\<open>[]\<close> both functions return their generic error value, which carries
  no raw text; for an output that is a JSON string holding the names of the six fields,
  \<^verbatim>\<open>generate_email\<close> returns that string as if it were the draft.
\<close>

theorem synthesis_unparsed_output_counterexample:
  "fst (generate_email_content stub_gen ''[]'') =
     JObj [(''error'',
            JStr ''Email generation failed: list indices must be integers or slices, not str'')]
 \<and> fst (generate_email stub_gen ''[]'' ''gpt-3.5-turbo'') =
     Inr (JObj [(''error'',
                 JStr ''API call failed: list indices must be integers or slices, not str'')])
 \<and> fst (generate_email stub_gen ''six names'' ''gpt-3.5-turbo'') =
     Inr (JStr ''subject body to cc bcc priority'')"
  by code_simp

text \<open>
  Claim C2. Synthesis that parses the completion output returns a draft with all six
  fields, a missing field being filled with its default: the empty list for \<open>to\<close>, \<open>cc\<close>
  and \<open>bcc\<close>, \<open>normal\<close> for \<open>priority\<close>, the empty string for \<open>subject\<close> and \<open>body\<close>.
  \<^verbatim>\<open>generate_email_content\<close> does so (lemma \<open>generate_email_content_parsed\<close>; its
  \<open>to\<close> is then subject to the placeholder rule). \<^verbatim>\<open>generate_email\<close> of
  \<^verbatim>\<open>email_generation.py\<close> has one default for everything that is not a recipient list:
  for the parsed object with a subject only it returns the priority as the empty string,
  where \<^verbatim>\<open>generate_email_content\<close> returns \<open>normal\<close>.
\<close>

theorem generate_email_priority_default:
  "fst (generate_email stub_gen ''subject only'' ''gpt-3.5-turbo'') =
     Inr (JObj [(''subject'', JStr ''Hi''), (''body'', JStr []), (''to'', JList []),
                (''cc'', JList []), (''bcc'', JList []), (''priority'', JStr [])])
 \<and> fst (generate_email_content stub_gen ''subject only'') =
     JObj [(''subject'', JStr ''Hi''), (''body'', JStr []),
           (''to'', JList [JStr ''recipient@example.com'']),
           (''cc'', JList []), (''bcc'', JList []), (''priority'', JStr ''normal'')]"
  by code_simp

text \<open>
  Claim C3. When \<open>to\<close> is empty after the repair of the fields, synthesis puts the one
  placeholder address \<^verbatim>\<open>recipient@example.com\<close> there. \<^verbatim>\<open>generate_email_content\<close> does so
  (lemma \<open>generate_email_content_parsed\<close>). \<^verbatim>\<open>generate_email\<close> of
  \<^verbatim>\<open>email_generation.py\<close> has no such step: for the parsed object whose \<open>to\<close> is the empty
  list it returns the draft with the empty recipient list.
\<close>

theorem generate_email_keeps_empty_recipients:
  "fst (generate_email stub_gen ''no recipients'' ''gpt-3.5-turbo'') =
     Inr (JObj [(''subject'', JStr ''Hi''), (''body'', JStr ''Hello''), (''to'', JList []),
                (''cc'', JList []), (''bcc'', JList []), (''priority'', JStr [])])
 \<and> fst (generate_email_content stub_gen ''no recipients'') =
     JObj [(''subject'', JStr ''Hi''), (''body'', JStr ''Hello''),
           (''to'', JList [JStr ''recipient@example.com'']),
           (''cc'', JList []), (''bcc'', JList []), (''priority'', JStr ''normal'')]"
  by code_simp

section \<open>Claims about the orchestrator\<close>

lemma first_turn_send:
  assumes "llm env [HumanMessage (system_message env), HumanMessage u]
             = Inr (c, [ToolCall ''send_email_smtp'' arg])"
  shows "\<exists>out evs. run_workflow env recursion_limit [HumanMessage u] =
           (out, EvAgent c [ToolCall ''send_email_smtp'' arg]
                 # EvSend arg (fst (send_email_smtp (smtp env) arg))
                     (snd (send_email_smtp (smtp env) arg))
                 # evs)"
proof -
  have lim: "recursion_limit = Suc (Suc 23)"
    by (simp add: recursion_limit_def)
  have cm: "call_model env [HumanMessage u] = Inr [AIMessage c [ToolCall ''send_email_smtp'' arg]]"
    using assms by (simp add: call_model_def)
  have sc: "should_continue [HumanMessage u, AIMessage c [ToolCall ''send_email_smtp'' arg]]
              = Inr ''tools''"
    by (simp add: should_continue_def)
  have tn: "tool_node env [HumanMessage u, AIMessage c [ToolCall ''send_email_smtp'' arg]]
              = ([ToolMessage (fst (send_email_smtp (smtp env) arg)) ''send_email_smtp''],
                 [EvSend arg (fst (send_email_smtp (smtp env) arg))
                    (snd (send_email_smtp (smtp env) arg))])"
    by (simp add: tool_node_def run_tool_def split: prod.splits)
  obtain out evs where rw:
    "run_workflow env 23
       [HumanMessage u, AIMessage c [ToolCall ''send_email_smtp'' arg],
        ToolMessage (fst (send_email_smtp (smtp env) arg)) ''send_email_smtp''] = (out, evs)"
    by (cases "run_workflow env 23
       [HumanMessage u, AIMessage c [ToolCall ''send_email_smtp'' arg],
        ToolMessage (fst (send_email_smtp (smtp env) arg)) ''send_email_smtp'']")
  have "run_workflow env (Suc (Suc 23)) [HumanMessage u] =
           (out, EvAgent c [ToolCall ''send_email_smtp'' arg]
                 # EvSend arg (fst (send_email_smtp (smtp env) arg))
                     (snd (send_email_smtp (smtp env) arg))
                 # evs)"
    unfolding run_workflow.simps by (simp add: cm sc tn rw)
  then show ?thesis
    unfolding lim by blast
qed

text \<open>
  Claim C1, as the code has it. The orchestrator keeps no confirmation state: in every
  session, each tool that runs was asked for by the language model; in particular \<^verbatim>\<open>send_email_smtp\<close> runs only from the \<^verbatim>\<open>tools\<close> node, on
  a \<^verbatim>\<open>send_email_smtp\<close> call of the model's last message. When the model's first answer to
  an accepted line (one that is no exit word, is not blank and has two words or more) is
  such a call, the sender runs at once, on that first turn. That the model asks for the
  sender only after the user's confirmation is an instruction of its prompt.
\<close>

theorem sender_runs_at_model_request:
  "subseq (executed (run_email_agent env inputs)) (requested (run_email_agent env inputs))
 \<and> (\<forall>arg r tr. EvSend arg r tr \<in> set (run_email_agent env inputs) \<longrightarrow>
        (\<exists>c calls. EvAgent c calls \<in> set (run_email_agent env inputs) \<and>
                   ToolCall ''send_email_smtp'' arg \<in> set calls))
 \<and> (str_lower (agent_str env) u \<notin> set [''quit'', ''exit'', ''bye''] \<and>
     str_strip (agent_str env) u \<noteq> [] \<and>
     2 \<le> length (str_split (agent_str env) (str_strip (agent_str env) u)) \<and>
     llm env [HumanMessage (system_message env), HumanMessage u]
       = Inr (c, [ToolCall ''send_email_smtp'' arg]) \<longrightarrow>
     (\<exists>evs. run_email_agent env (u # rest) =
        EvUser u # EvAgent c [ToolCall ''send_email_smtp'' arg]
        # EvSend arg (fst (send_email_smtp (smtp env) arg)) (snd (send_email_smtp (smtp env) arg))
        # evs))"
proof (intro conjI allI impI)
  show "subseq (executed (run_email_agent env inputs)) (requested (run_email_agent env inputs))"
    by (rule run_email_agent_subseq)
next
  fix arg r tr
  assume "EvSend arg r tr \<in> set (run_email_agent env inputs)"
  then have "ToolCall ''send_email_smtp'' arg \<in> set (executed (run_email_agent env inputs))"
    by (rule EvSend_executed)
  with run_email_agent_subseq [of env inputs]
  have "ToolCall ''send_email_smtp'' arg \<in> set (requested (run_email_agent env inputs))"
    by (rule subseq_member)
  then show "\<exists>c calls. EvAgent c calls \<in> set (run_email_agent env inputs) \<and>
                   ToolCall ''send_email_smtp'' arg \<in> set calls"
    by (rule requested_member)
next
  assume a: "str_lower (agent_str env) u \<notin> set [''quit'', ''exit'', ''bye''] \<and>
     str_strip (agent_str env) u \<noteq> [] \<and>
     2 \<le> length (str_split (agent_str env) (str_strip (agent_str env) u)) \<and>
     llm env [HumanMessage (system_message env), HumanMessage u]
       = Inr (c, [ToolCall ''send_email_smtp'' arg])"
  then have ne: "str_strip (agent_str env) u \<noteq> []"
    by simp
  from a first_turn_send [of env u c arg] obtain out evs where
    rw: "run_workflow env recursion_limit [HumanMessage u] =
           (out, EvAgent c [ToolCall ''send_email_smtp'' arg]
                 # EvSend arg (fst (send_email_smtp (smtp env) arg))
                     (snd (send_email_smtp (smtp env) arg))
                 # evs)"
    by blast
  from a ne rw show "\<exists>evs. run_email_agent env (u # rest) =
        EvUser u # EvAgent c [ToolCall ''send_email_smtp'' arg]
        # EvSend arg (fst (send_email_smtp (smtp env) arg)) (snd (send_email_smtp (smtp env) arg))
        # evs"
    by (cases out) (simp_all del: set_simps)
qed

theorem sender_runs_at_model_request_witness:
  "(\<exists>c calls. EvAgent c calls \<in> set (run_email_agent eager_agent [''email pat now'']) \<and>
              ToolCall ''send_email_smtp'' ''ok'' \<in> set calls)
 \<and> (\<exists>evs. run_email_agent eager_agent [''email pat now''] =
        EvUser ''email pat now'' # EvAgent [] [ToolCall ''send_email_smtp'' ''ok'']
        # EvSend ''ok'' (fst (send_email_smtp stub_smtp ''ok'')) (snd (send_email_smtp stub_smtp ''ok''))
        # evs)"
proof -
  have h1: "str_lower (agent_str eager_agent) ''email pat now'' \<notin> set [''quit'', ''exit'', ''bye'']"
    by code_simp
  have h2: "str_strip (agent_str eager_agent) ''email pat now'' \<noteq> [] \<and>
            2 \<le> length (str_split (agent_str eager_agent)
                          (str_strip (agent_str eager_agent) ''email pat now''))"
    by code_simp
  have h3: "llm eager_agent [HumanMessage (system_message eager_agent), HumanMessage ''email pat now'']
       = Inr ([], [ToolCall ''send_email_smtp'' ''ok''])"
    by (simp add: eager_agent_def eager_llm_def)
  have s: "smtp eager_agent = stub_smtp"
    by (simp add: eager_agent_def)
  note t = sender_runs_at_model_request [of eager_agent "[''email pat now'']" "''email pat now''"
      "[]" "''ok''" "[]"]
  from t h1 h2 h3 obtain evs where
    run: "run_email_agent eager_agent [''email pat now''] =
        EvUser ''email pat now'' # EvAgent [] [ToolCall ''send_email_smtp'' ''ok'']
        # EvSend ''ok'' (fst (send_email_smtp stub_smtp ''ok'')) (snd (send_email_smtp stub_smtp ''ok''))
        # evs"
    unfolding s by blast
  then have "EvSend ''ok'' (fst (send_email_smtp stub_smtp ''ok'')) (snd (send_email_smtp stub_smtp ''ok''))
      \<in> set (run_email_agent eager_agent [''email pat now''])"
    by simp
  with t have "\<exists>c calls. EvAgent c calls \<in> set (run_email_agent eager_agent [''email pat now'']) \<and>
              ToolCall ''send_email_smtp'' ''ok'' \<in> set calls"
    by blast
  with run show ?thesis by blast
qed

text \<open>
  Claim C1, as stated, fails. In the session below the user types one line, the model
  answers it with a \<^verbatim>\<open>send_email_smtp\<close> call, and the sender runs and delivers the message:
  no draft was generated, none was shown, no confirmation was given. The monitor of the
  specification's state machine rejects the session even when every user turn counts as
  affirmative, since the sender runs out of \<open>AwaitingDraftGeneration\<close>.
\<close>

theorem confirmation_gate_counterexample:
  "run_email_agent eager_agent [''email pat now''] =
     [EvUser ''email pat now'',
      EvAgent [] [ToolCall ''send_email_smtp'' ''ok''],
      EvSend ''ok''
        ''Email sent successfully to: pat@example.org, lee@example.org, lee@example.org, pat@example.org''
        [SMTP_connect ''smtp.gmail.com'' 587, SMTP_starttls, SMTP_login (JStr []) (JStr []),
         SMTP_sendmail (JStr [])
           (JList [JStr ''pat@example.org'', JStr ''lee@example.org'', JStr ''lee@example.org'',
                   JStr ''pat@example.org''])
           ''text'',
         SMTP_quit],
      EvAgent ''The email has been sent.'' []]
 \<and> spec_run any_turn_affirmative Idle [EvUser ''email pat now''] = Some AwaitingDraftGeneration
 \<and> \<not> confirmation_gate_holds any_turn_affirmative (run_email_agent eager_agent [''email pat now''])"
  by code_simp

text \<open>
  Claim C8, as the code has it. Whether a missing model credential is fatal at startup
  depends on the program. In \<^verbatim>\<open>email_agent_langchain.py\<close>, \<^verbatim>\<open>run_email_agent\<close> builds the
  model object before its loop and outside any \<^verbatim>\<open>try\<close>: when the constructor raises, as
  it does without a key, the exception ends the process before the loop begins. In
  \<^verbatim>\<open>email_generation.py\<close>, \<^verbatim>\<open>generate_email\<close> builds its client outside its \<^verbatim>\<open>try\<close>: the
  constructor's exception reaches the caller, and no completion is requested.
  \<^verbatim>\<open>generate_email_content\<close>, with \<^verbatim>\<open>OPENAI_API_KEY\<close> unset or empty, returns the error
  value \<^verbatim>\<open>{"error": "OpenAI API key not found in environment variables"}\<close> without building
  a client or calling the completion service; both scripts print that value for their
  test call and go on. In \<^verbatim>\<open>email_langgraph.py\<close> the model object is built inside
  \<^verbatim>\<open>call_model\<close>: the loop is entered, a model call that raises is reported for that turn,
  and the loop goes on with the next line.
\<close>

theorem missing_credential_by_program:
  "(new_chat_model cenv (api_key (chain_gen cenv)) = Some e \<longrightarrow>
      run_email_agent_langchain cenv inputs = Inl e \<and> snd (main_langchain cenv inputs) = Inl e)
 \<and> (new_client genv (api_key genv) = Some e \<longrightarrow>
      generate_email genv query model = (Inl e, [OpenAI_client (api_key genv)]))
 \<and> (api_key genv = None \<or> api_key genv = Some [] \<longrightarrow>
      generate_email_content genv query =
        (JObj [(''error'', JStr ''OpenAI API key not found in environment variables'')], []))
 \<and> (api_key (chain_gen cenv) = None \<or> api_key (chain_gen cenv) = Some [] \<longrightarrow>
      fst (main_langchain cenv inputs) =
        JObj [(''error'', JStr ''OpenAI API key not found in environment variables'')])
 \<and> (api_key (gen env) = None \<or> api_key (gen env) = Some [] \<longrightarrow>
      main_langgraph env inputs =
        (JObj [(''error'', JStr ''OpenAI API key not found in environment variables'')],
         run_email_agent env inputs))
 \<and> (str_lower (agent_str env) u \<notin> set [''quit'', ''exit'', ''bye''] \<and>
     str_strip (agent_str env) u \<noteq> [] \<and>
     2 \<le> length (str_split (agent_str env) (str_strip (agent_str env) u)) \<and>
     llm env [HumanMessage (system_message env), HumanMessage u] = Inl e \<longrightarrow>
     run_email_agent env (u # rest) = EvUser u # EvError (str_exc e) # run_email_agent env rest)"
proof (intro conjI impI)
  assume "new_chat_model cenv (api_key (chain_gen cenv)) = Some e"
  then show "run_email_agent_langchain cenv inputs = Inl e"
    and "snd (main_langchain cenv inputs) = Inl e"
    by (simp_all add: main_langchain_def run_email_agent_langchain_def create_email_agent_def)
next
  assume "new_client genv (api_key genv) = Some e"
  then show "generate_email genv query model = (Inl e, [OpenAI_client (api_key genv)])"
    by (simp add: generate_email_def)
next
  have g: "generate_email_content G q =
           (JObj [(''error'', JStr ''OpenAI API key not found in environment variables'')], [])"
    if "api_key G = None \<or> api_key G = Some []" for G q
    using that by (auto simp: generate_email_content_def generate_email_content_try_def)
  {
    assume "api_key genv = None \<or> api_key genv = Some []"
    then show "generate_email_content genv query =
        (JObj [(''error'', JStr ''OpenAI API key not found in environment variables'')], [])"
      by (rule g)
  }
  {
    assume "api_key (chain_gen cenv) = None \<or> api_key (chain_gen cenv) = Some []"
    then show "fst (main_langchain cenv inputs) =
        JObj [(''error'', JStr ''OpenAI API key not found in environment variables'')]"
      by (simp add: main_langchain_def g)
  }
  {
    assume "api_key (gen env) = None \<or> api_key (gen env) = Some []"
    then show "main_langgraph env inputs =
        (JObj [(''error'', JStr ''OpenAI API key not found in environment variables'')],
         run_email_agent env inputs)"
      by (simp add: main_langgraph_def g)
  }
next
  assume a: "str_lower (agent_str env) u \<notin> set [''quit'', ''exit'', ''bye''] \<and>
     str_strip (agent_str env) u \<noteq> [] \<and>
     2 \<le> length (str_split (agent_str env) (str_strip (agent_str env) u)) \<and>
     llm env [HumanMessage (system_message env), HumanMessage u] = Inl e"
  have lim: "recursion_limit = Suc 24"
    by (simp add: recursion_limit_def)
  from a have cm: "call_model env [HumanMessage u] = Inl e"
    by (simp add: call_model_def)
  have "run_workflow env (Suc 24) [HumanMessage u] = (Raised e, [])"
    unfolding run_workflow.simps by (simp add: cm)
  then have "run_workflow env recursion_limit [HumanMessage u] = (Raised e, [])"
    unfolding lim .
  with a show "run_email_agent env (u # rest) = EvUser u # EvError (str_exc e) # run_email_agent env rest"
    by (simp del: set_simps)
qed

theorem missing_credential_by_program_witness:
  "main_langchain no_key_chain [''write an email to bob'', ''quit''] =
     (JObj [(''error'', JStr ''OpenAI API key not found in environment variables'')],
      Inl (OtherException ''The api_key client option must be set''))
 \<and> generate_email no_key_gen ''Write to Pat'' ''gpt-3.5-turbo'' =
      (Inl (OtherException ''The api_key client option must be set''), [OpenAI_client None])
 \<and> generate_email_content no_key_gen ''Write to Pat'' =
      (JObj [(''error'', JStr ''OpenAI API key not found in environment variables'')], [])
 \<and> run_email_agent no_key_agent [''write an email to bob'', ''quit''] =
      [EvUser ''write an email to bob'', EvError ''The api_key client option must be set'',
       EvGoodbye]"
proof -
  have k: "api_key no_key_gen = None" "chain_gen no_key_chain = no_key_gen"
    by (simp_all add: no_key_gen_def no_key_chain_def stub_gen_def)
  have n: "new_chat_model no_key_chain (api_key (chain_gen no_key_chain))
             = Some (OtherException ''The api_key client option must be set'')"
    by (simp add: no_key_chain_def no_key_gen_def stub_gen_def)
  have c: "new_client no_key_gen (api_key no_key_gen)
             = Some (OtherException ''The api_key client option must be set'')"
    by (simp add: no_key_gen_def stub_gen_def)
  have h1: "str_lower (agent_str no_key_agent) ''write an email to bob''
              \<notin> set [''quit'', ''exit'', ''bye'']"
    by code_simp
  have h2: "str_strip (agent_str no_key_agent) ''write an email to bob'' \<noteq> [] \<and>
            2 \<le> length (str_split (agent_str no_key_agent)
                          (str_strip (agent_str no_key_agent) ''write an email to bob''))"
    by code_simp
  have h3: "llm no_key_agent [HumanMessage (system_message no_key_agent),
                              HumanMessage ''write an email to bob'']
              = Inl (OtherException ''The api_key client option must be set'')"
    by (simp add: no_key_agent_def)
  have q: "run_email_agent no_key_agent [''quit''] = [EvGoodbye]"
    by code_simp
  note t = missing_credential_by_program [of no_key_chain
      "OtherException ''The api_key client option must be set''"
      "[''write an email to bob'', ''quit'']" no_key_gen "''Write to Pat''" "''gpt-3.5-turbo''"
      no_key_agent "''write an email to bob''" "[''quit'']"]
  from t n have r1: "snd (main_langchain no_key_chain [''write an email to bob'', ''quit''])
      = Inl (OtherException ''The api_key client option must be set'')"
    by blast
  from t k have r2: "fst (main_langchain no_key_chain [''write an email to bob'', ''quit''])
      = JObj [(''error'', JStr ''OpenAI API key not found in environment variables'')]"
    by simp
  from t c have r3: "generate_email no_key_gen ''Write to Pat'' ''gpt-3.5-turbo'' =
      (Inl (OtherException ''The api_key client option must be set''), [OpenAI_client None])"
    by (simp add: k)
  from t k have r4: "generate_email_content no_key_gen ''Write to Pat'' =
      (JObj [(''error'', JStr ''OpenAI API key not found in environment variables'')], [])"
    by simp
  from t h1 h2 h3 have "run_email_agent no_key_agent [''write an email to bob'', ''quit''] =
      EvUser ''write an email to bob'' # EvError ''The api_key client option must be set''
      # run_email_agent no_key_agent [''quit'']"
    by simp
  with q have r5: "run_email_agent no_key_agent [''write an email to bob'', ''quit''] =
      [EvUser ''write an email to bob'', EvError ''The api_key client option must be set'',
       EvGoodbye]"
    by simp
  from r1 r2 have "main_langchain no_key_chain [''write an email to bob'', ''quit''] =
     (JObj [(''error'', JStr ''OpenAI API key not found in environment variables'')],
      Inl (OtherException ''The api_key client option must be set''))"
    by (simp add: prod_eq_iff)
  with r3 r4 r5 show ?thesis by blast
qed

text \<open>
  Claim C8, as stated, fails. Without the credential the synthesis tool returns the error
  value instead of ending the process, and the script of \<^verbatim>\<open>email_langgraph.py\<close> does not
  end before its loop: its test call returns the error value, the loop starts, the first
  line is answered with the error of the model call, an unclear line with the request to
  be more specific, and the loop ends only when the user types \<^verbatim>\<open>quit\<close>.
\<close>

theorem missing_credential_counterexample:
  "main_langgraph no_key_agent [''write an email to bob'', ''yes'', ''QUIT''] =
     (JObj [(''error'', JStr ''OpenAI API key not found in environment variables'')],
      [EvUser ''write an email to bob'', EvError ''The api_key client option must be set'',
       EvClarify, EvGoodbye])"
  by code_simp

end
